theory Spec2Isabelle
  imports Main "HOL-Library.Word"
begin

section \<open>Strings, numbers and dates of the source language\<close>

text \<open>
  A TypeScript string is a sequence of UTF-16 code units, so a character is a 16-bit
  word; \<open>js\<close> embeds an ASCII literal. The \<open>number\<close> fields of the store hold
  counters that only ever move by one, so they are modelled as unbounded integers (the
  double of the source is exact on integers below \<open>2 ^ 53\<close>). A \<open>Date\<close> is its
  number of milliseconds since the epoch.
\<close>

type_synonym jschar = "16 word"
type_synonym jsstring = "jschar list"
type_synonym date = int

definition js :: "string \<Rightarrow> jsstring" where
  "js s = map (\<lambda>c. of_nat (of_char c)) s"

section \<open>Data model (src/src/context/AttendanceContext.tsx, lines 4 to 64)\<close>

text \<open>An optional field (\<open>email?: string\<close>) is an \<open>option\<close>; \<open>None\<close> is \<open>undefined\<close>.\<close>

record Person =
  P_id :: jsstring
  P_name :: jsstring
  P_email :: "jsstring option"
  P_department :: "jsstring option"
  P_imageCount :: "int option"
  P_isActive :: bool
  P_createdAt :: date

datatype AttendanceStatus = Present | Absent | Late | MCR

record AttendanceRecord =
  R_id :: jsstring
  R_personId :: jsstring
  R_personName :: jsstring
  R_date :: jsstring
  R_clockInTime :: "jsstring option"
  R_clockOutTime :: "jsstring option"
  R_duration :: "jsstring option"
  R_status :: AttendanceStatus
  R_confidence :: "int option"

datatype TrainingStatus = in_progress | completed | failed

record TrainingSession =
  T_id :: jsstring
  T_personId :: jsstring
  T_personName :: jsstring
  T_imagesCaptured :: int
  T_totalImages :: int
  T_status :: TrainingStatus
  T_startTime :: date
  T_endTime :: "date option"

record CurrentSession =
  isActive :: bool
  lectureDuration :: "jsstring option"
  startTime :: "date option"

record Statistics =
  totalPersons :: int
  presentToday :: int
  totalClockIns :: int
  totalClockOuts :: int

record AttendanceState =
  persons :: "Person list"
  attendanceRecords :: "AttendanceRecord list"
  trainingSessions :: "TrainingSession list"
  currentSession :: CurrentSession
  statistics :: Statistics

text \<open>
  \<open>Partial<T>\<close>: every key may be absent. A patch field is \<open>None\<close> when the key is
  absent and \<open>Some v\<close> when the key is present with value \<open>v\<close>; for a field that is
  itself optional, \<open>Some None\<close> is the key present and holding \<open>undefined\<close>, which the
  object spread copies like any other value.
\<close>

record PersonUpdates =
  PU_id :: "jsstring option"
  PU_name :: "jsstring option"
  PU_email :: "jsstring option option"
  PU_department :: "jsstring option option"
  PU_imageCount :: "int option option"
  PU_isActive :: "bool option"
  PU_createdAt :: "date option"

record AttendanceRecordUpdates =
  RU_id :: "jsstring option"
  RU_personId :: "jsstring option"
  RU_personName :: "jsstring option"
  RU_date :: "jsstring option"
  RU_clockInTime :: "jsstring option option"
  RU_clockOutTime :: "jsstring option option"
  RU_duration :: "jsstring option option"
  RU_status :: "AttendanceStatus option"
  RU_confidence :: "int option option"

record TrainingSessionUpdates =
  TU_id :: "jsstring option"
  TU_personId :: "jsstring option"
  TU_personName :: "jsstring option"
  TU_imagesCaptured :: "int option"
  TU_totalImages :: "int option"
  TU_status :: "TrainingStatus option"
  TU_startTime :: "date option"
  TU_endTime :: "date option option"

datatype AttendanceAction =
    ADD_PERSON Person
  | UPDATE_PERSON jsstring PersonUpdates
  | DELETE_PERSON jsstring
  | ADD_ATTENDANCE_RECORD AttendanceRecord
  | UPDATE_ATTENDANCE_RECORD jsstring AttendanceRecordUpdates
  | START_TRAINING_SESSION TrainingSession
  | UPDATE_TRAINING_SESSION jsstring TrainingSessionUpdates
  | START_ATTENDANCE_SESSION jsstring
  | END_ATTENDANCE_SESSION
  | UPDATE_STATISTICS

section \<open>The initial state (lines 66 to 107)\<close>

definition initialState :: AttendanceState where
  "initialState = \<lparr>
     persons = [
       \<lparr> P_id = js ''1'', P_name = js ''Abhinav'', P_email = Some (js ''abhinav@example.com''),
         P_department = Some (js ''Engineering''), P_imageCount = Some 101, P_isActive = True,
         P_createdAt = 1672531200000 \<rparr>,
       \<lparr> P_id = js ''2'', P_name = js ''Venkat'', P_email = Some (js ''venkat@example.com''),
         P_department = Some (js ''Engineering''), P_imageCount = Some 101, P_isActive = True,
         P_createdAt = 1672617600000 \<rparr>,
       \<lparr> P_id = js ''3'', P_name = js ''Ashritha'', P_email = Some (js ''ashritha@example.com''),
         P_department = Some (js ''Design''), P_imageCount = Some 101, P_isActive = True,
         P_createdAt = 1672704000000 \<rparr> ],
     attendanceRecords = [],
     trainingSessions = [],
     currentSession = \<lparr> isActive = False, lectureDuration = None, startTime = None \<rparr>,
     statistics = \<lparr> totalPersons = 3, presentToday = 0, totalClockIns = 0, totalClockOuts = 0 \<rparr> \<rparr>"

section \<open>The reducer (lines 109 to 204)\<close>

text \<open>\<open>{ ...x, ...updates }\<close>: a key present in the patch overrides, an absent one keeps.\<close>

definition spread :: "'a \<Rightarrow> 'a option \<Rightarrow> 'a" where
  "spread old upd = (case upd of None \<Rightarrow> old | Some v \<Rightarrow> v)"

definition spread_Person :: "Person \<Rightarrow> PersonUpdates \<Rightarrow> Person" where
  "spread_Person p u = \<lparr>
     P_id = spread (P_id p) (PU_id u),
     P_name = spread (P_name p) (PU_name u),
     P_email = spread (P_email p) (PU_email u),
     P_department = spread (P_department p) (PU_department u),
     P_imageCount = spread (P_imageCount p) (PU_imageCount u),
     P_isActive = spread (P_isActive p) (PU_isActive u),
     P_createdAt = spread (P_createdAt p) (PU_createdAt u) \<rparr>"

definition spread_AttendanceRecord ::
  "AttendanceRecord \<Rightarrow> AttendanceRecordUpdates \<Rightarrow> AttendanceRecord" where
  "spread_AttendanceRecord r u = \<lparr>
     R_id = spread (R_id r) (RU_id u),
     R_personId = spread (R_personId r) (RU_personId u),
     R_personName = spread (R_personName r) (RU_personName u),
     R_date = spread (R_date r) (RU_date u),
     R_clockInTime = spread (R_clockInTime r) (RU_clockInTime u),
     R_clockOutTime = spread (R_clockOutTime r) (RU_clockOutTime u),
     R_duration = spread (R_duration r) (RU_duration u),
     R_status = spread (R_status r) (RU_status u),
     R_confidence = spread (R_confidence r) (RU_confidence u) \<rparr>"

definition spread_TrainingSession ::
  "TrainingSession \<Rightarrow> TrainingSessionUpdates \<Rightarrow> TrainingSession" where
  "spread_TrainingSession t u = \<lparr>
     T_id = spread (T_id t) (TU_id u),
     T_personId = spread (T_personId t) (TU_personId u),
     T_personName = spread (T_personName t) (TU_personName u),
     T_imagesCaptured = spread (T_imagesCaptured t) (TU_imagesCaptured u),
     T_totalImages = spread (T_totalImages t) (TU_totalImages u),
     T_status = spread (T_status t) (TU_status u),
     T_startTime = spread (T_startTime t) (TU_startTime u),
     T_endTime = spread (T_endTime t) (TU_endTime u) \<rparr>"

text \<open>
  Truthiness of an optional string, as the conditions on \<open>clockInTime\<close> and
  \<open>clockOutTime\<close> test it: \<open>undefined\<close> and the empty string are falsy.
\<close>

definition truthy :: "jsstring option \<Rightarrow> bool" where
  "truthy v = (case v of None \<Rightarrow> False | Some s \<Rightarrow> s \<noteq> [])"

text \<open>
  The reducer is pure but for \<open>new Date()\<close> in the \<open>START_ATTENDANCE_SESSION\<close> case;
  the clock reading is the parameter \<open>now\<close>. The source has no \<open>throw\<close> and, on values
  of the declared types, no operation that can fail, so the result is a plain state.
\<close>

fun attendanceReducer :: "date \<Rightarrow> AttendanceState \<Rightarrow> AttendanceAction \<Rightarrow> AttendanceState" where
  "attendanceReducer now state (ADD_PERSON payload) =
     state\<lparr> persons := persons state @ [payload],
            statistics := (statistics state)\<lparr> totalPersons := totalPersons (statistics state) + 1 \<rparr> \<rparr>"
| "attendanceReducer now state (UPDATE_PERSON ident updates) =
     state\<lparr> persons :=
              map (\<lambda>person. if P_id person = ident then spread_Person person updates else person)
                (persons state) \<rparr>"
| "attendanceReducer now state (DELETE_PERSON payload) =
     state\<lparr> persons := filter (\<lambda>person. P_id person \<noteq> payload) (persons state),
            statistics := (statistics state)\<lparr> totalPersons := totalPersons (statistics state) - 1 \<rparr> \<rparr>"
| "attendanceReducer now state (ADD_ATTENDANCE_RECORD newRecord) =
     (let isClockIn = truthy (R_clockInTime newRecord) \<and> \<not> truthy (R_clockOutTime newRecord);
          isClockOut = truthy (R_clockOutTime newRecord)
      in state\<lparr> attendanceRecords := attendanceRecords state @ [newRecord],
                statistics := (statistics state)\<lparr>
                  totalClockIns := (if isClockIn then totalClockIns (statistics state) + 1
                                    else totalClockIns (statistics state)),
                  totalClockOuts := (if isClockOut then totalClockOuts (statistics state) + 1
                                     else totalClockOuts (statistics state)),
                  presentToday := (if R_status newRecord = Present
                                   then presentToday (statistics state) + 1
                                   else presentToday (statistics state)) \<rparr> \<rparr>)"
| "attendanceReducer now state (UPDATE_ATTENDANCE_RECORD ident updates) =
     state\<lparr> attendanceRecords :=
              map (\<lambda>record. if R_id record = ident then spread_AttendanceRecord record updates
                             else record)
                (attendanceRecords state) \<rparr>"
| "attendanceReducer now state (START_TRAINING_SESSION payload) =
     state\<lparr> trainingSessions := trainingSessions state @ [payload] \<rparr>"
| "attendanceReducer now state (UPDATE_TRAINING_SESSION ident updates) =
     state\<lparr> trainingSessions :=
              map (\<lambda>session. if T_id session = ident then spread_TrainingSession session updates
                              else session)
                (trainingSessions state) \<rparr>"
| "attendanceReducer now state (START_ATTENDANCE_SESSION duration) =
     state\<lparr> currentSession :=
              \<lparr> isActive = True, lectureDuration = Some duration, startTime = Some now \<rparr> \<rparr>"
| "attendanceReducer now state END_ATTENDANCE_SESSION =
     state\<lparr> currentSession := \<lparr> isActive = False, lectureDuration = None, startTime = None \<rparr> \<rparr>"
| "attendanceReducer now state UPDATE_STATISTICS = state"

section \<open>Sample payloads used at concrete inputs\<close>

text \<open>A record whose clock-in time is present but is the empty string.\<close>

definition blankClockIn :: AttendanceRecord where
  "blankClockIn = \<lparr> R_id = js ''r1'', R_personId = js ''1'', R_personName = js ''Abhinav'',
     R_date = js ''2024-01-01'', R_clockInTime = Some [], R_clockOutTime = None,
     R_duration = None, R_status = Absent, R_confidence = None \<rparr>"

text \<open>A person that no registration form would let through: empty id, empty name.\<close>

definition blankPerson :: Person where
  "blankPerson = \<lparr> P_id = [], P_name = [], P_email = None, P_department = None,
     P_imageCount = None, P_isActive = False, P_createdAt = 0 \<rparr>"

section \<open>Sequences of actions\<close>

text \<open>
  The provider feeds the reducer one dispatched action after the other; each comes with the
  clock reading of its moment.
\<close>

fun dispatchAll :: "AttendanceState \<Rightarrow> (date \<times> AttendanceAction) list \<Rightarrow> AttendanceState" where
  "dispatchAll s [] = s"
| "dispatchAll s ((now, a) # rest) = dispatchAll (attendanceReducer now s a) rest"

text \<open>Counting, over a sequence: AddPerson actions, DeletePerson actions.\<close>

fun isAddPerson :: "AttendanceAction \<Rightarrow> bool" where
  "isAddPerson (ADD_PERSON _) = True"
| "isAddPerson _ = False"

fun isDeletePerson :: "AttendanceAction \<Rightarrow> bool" where
  "isDeletePerson (DELETE_PERSON _) = True"
| "isDeletePerson _ = False"

definition addsApplied :: "(date \<times> AttendanceAction) list \<Rightarrow> nat" where
  "addsApplied acts = length (filter (\<lambda>(now, a). isAddPerson a) acts)"

definition deletesApplied :: "(date \<times> AttendanceAction) list \<Rightarrow> nat" where
  "deletesApplied acts = length (filter (\<lambda>(now, a). isDeletePerson a) acts)"

text \<open>How many roster entries carry the id.\<close>

definition entriesWithId :: "AttendanceState \<Rightarrow> jsstring \<Rightarrow> nat" where
  "entriesWithId s i = length (filter (\<lambda>person. P_id person = i) (persons s))"

text \<open>
  What a single action takes from the roster: \<open>matched\<close> is 1 for a DeletePerson whose
  id is in the roster, \<open>removed\<close> is the number of entries it filters out. The two sums
  below follow the states of the run.
\<close>

fun matched :: "AttendanceState \<Rightarrow> AttendanceAction \<Rightarrow> nat" where
  "matched s (DELETE_PERSON i) = (if 0 < entriesWithId s i then 1 else 0)"
| "matched s _ = 0"

fun removed :: "AttendanceState \<Rightarrow> AttendanceAction \<Rightarrow> nat" where
  "removed s (DELETE_PERSON i) = entriesWithId s i"
| "removed s _ = 0"

fun successfulDeletes :: "AttendanceState \<Rightarrow> (date \<times> AttendanceAction) list \<Rightarrow> nat" where
  "successfulDeletes s [] = 0"
| "successfulDeletes s ((now, a) # rest) =
     matched s a + successfulDeletes (attendanceReducer now s a) rest"

fun entriesRemoved :: "AttendanceState \<Rightarrow> (date \<times> AttendanceAction) list \<Rightarrow> nat" where
  "entriesRemoved s [] = 0"
| "entriesRemoved s ((now, a) # rest) =
     removed s a + entriesRemoved (attendanceReducer now s a) rest"

text \<open>Every DeletePerson of the run meets a roster with at most one entry of its id.\<close>

fun deletesMeetUniqueIds :: "AttendanceState \<Rightarrow> (date \<times> AttendanceAction) list \<Rightarrow> bool" where
  "deletesMeetUniqueIds s [] = True"
| "deletesMeetUniqueIds s ((now, a) # rest) =
     (removed s a \<le> 1 \<and> deletesMeetUniqueIds (attendanceReducer now s a) rest)"

text \<open>A second person with the id of the first seeded one, and a fourth person.\<close>

definition duplicateOfFirst :: Person where
  "duplicateOfFirst = \<lparr> P_id = js ''1'', P_name = js ''Twin'', P_email = None,
     P_department = None, P_imageCount = None, P_isActive = True, P_createdAt = 0 \<rparr>"

definition fourthPerson :: Person where
  "fourthPerson = \<lparr> P_id = js ''4'', P_name = js ''Dana'', P_email = None,
     P_department = None, P_imageCount = Some 101, P_isActive = True, P_createdAt = 5 \<rparr>"

section \<open>Identifiers in the roster\<close>

text \<open>
  The reducer never compares a new id with the roster. An action keeps the roster's ids
  apart when an added person's id is not in the roster yet and a person patch leaves the
  id as it is; \<open>idsKept\<close> asks this of every action of a run, in the state it meets.
\<close>

fun idKept :: "AttendanceState \<Rightarrow> AttendanceAction \<Rightarrow> bool" where
  "idKept s (ADD_PERSON p) = (P_id p \<notin> set (map P_id (persons s)))"
| "idKept s (UPDATE_PERSON i u) = (PU_id u = None \<or> PU_id u = Some i)"
| "idKept s _ = True"

fun idsKept :: "AttendanceState \<Rightarrow> (date \<times> AttendanceAction) list \<Rightarrow> bool" where
  "idsKept s [] = True"
| "idsKept s ((now, a) # rest) = (idKept s a \<and> idsKept (attendanceReducer now s a) rest)"

text \<open>A patch that only renames, and the seeded roster with the twin of its first person.\<close>

definition renameOnly :: PersonUpdates where
  "renameOnly = \<lparr> PU_id = None, PU_name = Some (js ''Renamed''), PU_email = None,
     PU_department = None, PU_imageCount = None, PU_isActive = None, PU_createdAt = None \<rparr>"

definition twinState :: AttendanceState where
  "twinState = attendanceReducer 0 initialState (ADD_PERSON duplicateOfFirst)"

section \<open>Duration of a stay (calculateDuration, src/unnamed/part_002, lines 138 to 151)\<close>

text \<open>
  \<open>clockIn.split(':')\<close>: the pieces between the separators, in order; a string without
  separator is its own single piece, and the empty string gives one empty piece.
\<close>

fun split_js :: "jschar \<Rightarrow> jsstring \<Rightarrow> jsstring list" where
  "split_js sep [] = [[]]"
| "split_js sep (c # cs) =
     (if c = sep then [] # split_js sep cs
      else (c # hd (split_js sep cs)) # tl (split_js sep cs))"

definition isDigit :: "jschar \<Rightarrow> bool" where
  "isDigit c = (0x30 \<le> c \<and> c \<le> 0x39)"

definition digitValue :: "jschar \<Rightarrow> int" where
  "digitValue c = int (unat c) - 48"

text \<open>
  \<open>Number\<close> applied to a string. On a non-empty string of decimal digits it is the
  decimal value. Every other string is outside this model (\<open>None\<close>): \<open>Number\<close> reads
  some of them by a wider grammar (blanks, signs, fractions, exponents, hexadecimal) and
  maps the rest to \<open>NaN\<close>.
\<close>

definition Number_js :: "jsstring \<Rightarrow> int option" where
  "Number_js s =
     (if s \<noteq> [] \<and> list_all isDigit s
      then Some (foldl (\<lambda>acc c. acc * 10 + digitValue c) 0 s) else None)"

text \<open>The remainder operator \<open>%\<close> takes the sign of the dividend.\<close>

definition rem_js :: "int \<Rightarrow> int \<Rightarrow> int" where
  "rem_js a b = (if a < 0 then - ((- a) mod \<bar>b\<bar>) else a mod \<bar>b\<bar>)"

text \<open>\<open>toString\<close> of an integral number: decimal digits, with a minus sign below zero.\<close>

definition digitChar :: "nat \<Rightarrow> jschar" where
  "digitChar k = of_nat (48 + k)"

fun digitsOf :: "nat \<Rightarrow> jsstring" where
  "digitsOf n = (if n < 10 then [digitChar n] else digitsOf (n div 10) @ [digitChar (n mod 10)])"

declare digitsOf.simps [simp del]

definition toString_js :: "int \<Rightarrow> jsstring" where
  "toString_js n = (if n < 0 then 0x2D # digitsOf (nat (- n)) else digitsOf (nat n))"

text \<open>\<open>padStart(n, c)\<close> with a pad string of one character.\<close>

definition padStart :: "nat \<Rightarrow> jschar \<Rightarrow> jsstring \<Rightarrow> jsstring" where
  "padStart n c s = replicate (n - length s) c @ s"

text \<open>
  \<open>const [h, m, s] = t.split(':').map(Number)\<close>: the destructuring takes the first three
  pieces and ignores any further one. A missing piece is \<open>undefined\<close> and makes every
  later number \<open>NaN\<close>, which is outside the model like an unreadable piece.
\<close>

definition threeNumbers :: "jsstring \<Rightarrow> (int \<times> int \<times> int) option" where
  "threeNumbers t =
     (case map Number_js (split_js 0x3A t) of
        h # m # s # _ \<Rightarrow>
          (case h of None \<Rightarrow> None | Some hv \<Rightarrow>
           (case m of None \<Rightarrow> None | Some mv \<Rightarrow>
            (case s of None \<Rightarrow> None | Some sv \<Rightarrow> Some (hv, mv, sv))))
      | _ \<Rightarrow> None)"

text \<open>\<open>Math.floor(x / 3600)\<close> on integers is the flooring \<open>div\<close>.\<close>

definition calculateDuration :: "jsstring \<Rightarrow> jsstring \<Rightarrow> jsstring option" where
  "calculateDuration clockIn clockOut =
     (case threeNumbers clockIn of None \<Rightarrow> None
      | Some (inHours, inMinutes, inSeconds) \<Rightarrow>
     (case threeNumbers clockOut of None \<Rightarrow> None
      | Some (outHours, outMinutes, outSeconds) \<Rightarrow>
          (let inTime = inHours * 3600 + inMinutes * 60 + inSeconds;
               outTime = outHours * 3600 + outMinutes * 60 + outSeconds;
               duration = outTime - inTime;
               hours = duration div 3600;
               minutes = rem_js duration 3600 div 60;
               seconds = rem_js duration 60
           in Some (padStart 2 0x30 (toString_js hours) @ [0x3A]
                    @ padStart 2 0x30 (toString_js minutes) @ [0x3A]
                    @ padStart 2 0x30 (toString_js seconds)))))"

text \<open>
  The specification's side: a time of day written \<open>HH:MM:SS\<close> with two digits a field,
  its number of seconds, and the zero-padded rendering of a number of seconds.
\<close>

definition twoDigits :: "nat \<Rightarrow> jsstring" where
  "twoDigits n = [digitChar (n div 10), digitChar (n mod 10)]"

definition clockString :: "nat \<Rightarrow> nat \<Rightarrow> nat \<Rightarrow> jsstring" where
  "clockString h m s = twoDigits h @ [0x3A] @ twoDigits m @ [0x3A] @ twoDigits s"

definition secondsOf :: "nat \<Rightarrow> nat \<Rightarrow> nat \<Rightarrow> nat" where
  "secondsOf h m s = h * 3600 + m * 60 + s"

definition renderSeconds :: "nat \<Rightarrow> jsstring" where
  "renderSeconds d = clockString (d div 3600) (d mod 3600 div 60) (d mod 60)"

section \<open>Registration form (validateForm, src/src/pages/AddPerson.tsx, lines 41 to 62)\<close>

text \<open>
  The white space of the language, which both \<open>trim\<close> and the class \<open>\s\<close> use: the
  code units of WhiteSpace and LineTerminator.
\<close>

definition isWhiteSpace :: "jschar \<Rightarrow> bool" where
  "isWhiteSpace c =
     (c = 0x09 \<or> c = 0x0A \<or> c = 0x0B \<or> c = 0x0C \<or> c = 0x0D \<or> c = 0x20 \<or> c = 0xA0 \<or>
      c = 0x1680 \<or> (0x2000 \<le> c \<and> c \<le> 0x200A) \<or> c = 0x2028 \<or> c = 0x2029 \<or>
      c = 0x202F \<or> c = 0x205F \<or> c = 0x3000 \<or> c = 0xFEFF)"

definition trim :: "jsstring \<Rightarrow> jsstring" where
  "trim s = rev (dropWhile isWhiteSpace (rev (dropWhile isWhiteSpace s)))"

text \<open>The class \<open>[a-zA-Z]\<close>.\<close>

definition isLetter :: "jschar \<Rightarrow> bool" where
  "isLetter c = ((0x41 \<le> c \<and> c \<le> 0x5A) \<or> (0x61 \<le> c \<and> c \<le> 0x7A))"

text \<open>
  The three patterns of the form are anchored at both ends and are sequences of two kinds
  of item: a character class under \<open>+\<close>, and a literal character. \<open>test\<close> decides whether
  the whole string is such a sequence.
\<close>

datatype item = OneOrMore "jschar \<Rightarrow> bool" | Literal jschar

fun test :: "item list \<Rightarrow> jsstring \<Rightarrow> bool" where
  "test [] s = (s = [])"
| "test (Literal c # r) [] = False"
| "test (Literal c # r) (x # xs) = (x = c \<and> test r xs)"
| "test (OneOrMore cls # r) [] = False"
| "test (OneOrMore cls # r) (x # xs) = (cls x \<and> (test r xs \<or> test (OneOrMore cls # r) xs))"

text \<open>\<open>/^\d+$/\<close>, \<open>/^[a-zA-Z\s]+$/\<close> and \<open>/^[^\s@]+@[^\s@]+\.[^\s@]+$/\<close>.\<close>

definition digitsPattern :: "item list" where
  "digitsPattern = [OneOrMore isDigit]"

definition lettersPattern :: "item list" where
  "lettersPattern = [OneOrMore (\<lambda>c. isLetter c \<or> isWhiteSpace c)]"

definition notSpaceNorAt :: "jschar \<Rightarrow> bool" where
  "notSpaceNorAt c = (\<not> (isWhiteSpace c \<or> c = 0x40))"

definition emailPattern :: "item list" where
  "emailPattern = [OneOrMore notSpaceNorAt, Literal 0x40, OneOrMore notSpaceNorAt, Literal 0x2E,
     OneOrMore notSpaceNorAt]"

record FormData =
  F_id :: jsstring
  F_name :: jsstring
  F_email :: jsstring
  F_department :: jsstring

text \<open>
  \<open>newErrors\<close> starts as the empty object and receives at most one message a field, in
  the order id, name, email; it is the list of its keys with their messages. The function
  hands \<open>newErrors\<close> to \<open>setErrors\<close> and returns whether it has no key: the result is
  the pair of both.
\<close>

definition validateForm :: "FormData \<Rightarrow> (string \<times> string) list \<times> bool" where
  "validateForm formData =
     (let newErrors = [];
          newErrors =
            (if trim (F_id formData) = [] then newErrors @ [(''id'', ''ID is required'')]
             else if \<not> test digitsPattern (F_id formData)
               then newErrors @ [(''id'', ''ID must be numeric'')]
             else newErrors);
          newErrors =
            (if trim (F_name formData) = [] then newErrors @ [(''name'', ''Name is required'')]
             else if \<not> test lettersPattern (F_name formData)
               then newErrors @ [(''name'', ''Name must contain only letters'')]
             else newErrors);
          newErrors =
            (if F_email formData \<noteq> [] \<and> \<not> test emailPattern (F_email formData)
               then newErrors @ [(''email'', ''Invalid email format'')]
             else newErrors)
      in (newErrors, length (map fst newErrors) = 0))"

text \<open>
  The specification's side. The basic shape \<open>local@domain.tld\<close>: three non-empty parts
  without white space and without \<open>@\<close>, joined by one \<open>@\<close> and one dot. A submission is
  accepted when validation returns true.
\<close>

definition emailShape :: "jsstring \<Rightarrow> bool" where
  "emailShape s =
     (\<exists>local domain tld. s = local @ [0x40] @ domain @ [0x2E] @ tld \<and>
        local \<noteq> [] \<and> domain \<noteq> [] \<and> tld \<noteq> [] \<and>
        list_all notSpaceNorAt local \<and> list_all notSpaceNorAt domain \<and> list_all notSpaceNorAt tld)"

definition accepted :: "FormData \<Rightarrow> bool" where
  "accepted formData = snd (validateForm formData)"

definition errorOf :: "FormData \<Rightarrow> string \<Rightarrow> string option" where
  "errorOf formData field = map_of (fst (validateForm formData)) field"

text \<open>A form whose name is one blank, and one that passes.\<close>

definition blankNameForm :: FormData where
  "blankNameForm = \<lparr> F_id = js ''1'', F_name = js '' '', F_email = [], F_department = [] \<rparr>"

definition johnDoeForm :: FormData where
  "johnDoeForm = \<lparr> F_id = js ''123'', F_name = js ''John Doe'', F_email = js ''john@example.com'',
     F_department = js ''Engineering'' \<rparr>"

section \<open>Sample records, sessions and patches\<close>

text \<open>
  The record a clock-in builds (a clock-in time, no clock-out time, status Present), and
  the same record with a clock-out time.
\<close>

definition clockInRecord :: AttendanceRecord where
  "clockInRecord = \<lparr> R_id = js ''1700000000000'', R_personId = js ''1'',
     R_personName = js ''Abhinav'', R_date = js ''2024-01-01'',
     R_clockInTime = Some (js ''09:00:00''), R_clockOutTime = None, R_duration = None,
     R_status = Present, R_confidence = Some 93 \<rparr>"

definition clockedOutRecord :: AttendanceRecord where
  "clockedOutRecord = clockInRecord\<lparr> R_clockOutTime := Some (js ''17:00:00''),
     R_duration := Some (js ''08:00:00''), R_status := Late \<rparr>"

text \<open>
  A patch that adds a clock-out time and a duration, a training session in progress and a
  patch that completes it, and a state that holds the twin roster, the clock-in record
  and that session.
\<close>

definition clockOutUpdates :: AttendanceRecordUpdates where
  "clockOutUpdates = \<lparr> RU_id = None, RU_personId = None, RU_personName = None, RU_date = None,
     RU_clockInTime = None, RU_clockOutTime = Some (Some (js ''17:00:00'')),
     RU_duration = Some (Some (js ''08:00:00'')), RU_status = None, RU_confidence = None \<rparr>"

definition runningSession :: TrainingSession where
  "runningSession = \<lparr> T_id = js ''t1'', T_personId = js ''1'', T_personName = js ''Abhinav'',
     T_imagesCaptured = 40, T_totalImages = 101, T_status = in_progress, T_startTime = 1000,
     T_endTime = None \<rparr>"

definition completedUpdates :: TrainingSessionUpdates where
  "completedUpdates = \<lparr> TU_id = None, TU_personId = None, TU_personName = None,
     TU_imagesCaptured = Some 101, TU_totalImages = None, TU_status = Some completed,
     TU_startTime = None, TU_endTime = Some (Some 2000) \<rparr>"

definition busyState :: AttendanceState where
  "busyState = attendanceReducer 3 (attendanceReducer 2 twinState
     (ADD_ATTENDANCE_RECORD clockInRecord)) (START_TRAINING_SESSION runningSession)"

section \<open>The reducer on the values it meets at run time\<close>

text \<open>
  The declared types are erased when the program runs: the reducer then receives whatever
  object was dispatched. This second model of \<open>attendanceReducer\<close> keeps the source's
  cases and lets a payload be absent (\<open>undefined\<close>) and any field of a payload, of a patch
  or of an entity be missing; a field that is present holds a value of its declared type.
  Reading a property of \<open>undefined\<close> raises \<open>TypeError\<close>; reading a missing property
  of an object gives \<open>undefined\<close>, here \<open>None\<close>.
\<close>

datatype js_error = TypeError

record RawPerson =
  RP_id :: "jsstring option"
  RP_name :: "jsstring option"
  RP_email :: "jsstring option"
  RP_department :: "jsstring option"
  RP_imageCount :: "int option"
  RP_isActive :: "bool option"
  RP_createdAt :: "date option"

record RawAttendanceRecord =
  RR_id :: "jsstring option"
  RR_personId :: "jsstring option"
  RR_personName :: "jsstring option"
  RR_date :: "jsstring option"
  RR_clockInTime :: "jsstring option"
  RR_clockOutTime :: "jsstring option"
  RR_duration :: "jsstring option"
  RR_status :: "AttendanceStatus option"
  RR_confidence :: "int option"

record RawTrainingSession =
  RT_id :: "jsstring option"
  RT_personId :: "jsstring option"
  RT_personName :: "jsstring option"
  RT_imagesCaptured :: "int option"
  RT_totalImages :: "int option"
  RT_status :: "TrainingStatus option"
  RT_startTime :: "date option"
  RT_endTime :: "date option"

text \<open>
  A patch at run time: for every key, \<open>None\<close> when the patch lacks the key, \<open>Some v\<close>
  when it has the key with value \<open>v\<close>, where \<open>v\<close> may be \<open>undefined\<close>.
\<close>

record RawPersonUpdates =
  RPU_id :: "jsstring option option"
  RPU_name :: "jsstring option option"
  RPU_email :: "jsstring option option"
  RPU_department :: "jsstring option option"
  RPU_imageCount :: "int option option"
  RPU_isActive :: "bool option option"
  RPU_createdAt :: "date option option"

record RawAttendanceRecordUpdates =
  RRU_id :: "jsstring option option"
  RRU_personId :: "jsstring option option"
  RRU_personName :: "jsstring option option"
  RRU_date :: "jsstring option option"
  RRU_clockInTime :: "jsstring option option"
  RRU_clockOutTime :: "jsstring option option"
  RRU_duration :: "jsstring option option"
  RRU_status :: "AttendanceStatus option option"
  RRU_confidence :: "int option option"

record RawTrainingSessionUpdates =
  RTU_id :: "jsstring option option"
  RTU_personId :: "jsstring option option"
  RTU_personName :: "jsstring option option"
  RTU_imagesCaptured :: "int option option"
  RTU_totalImages :: "int option option"
  RTU_status :: "TrainingStatus option option"
  RTU_startTime :: "date option option"
  RTU_endTime :: "date option option"

text \<open>
  An action at run time. The payload of an update is an object with the keys \<open>id\<close> and
  \<open>updates\<close>, each of which may be missing; the payload of \<open>START_ATTENDANCE_SESSION\<close>
  is an object whose \<open>lectureDuration\<close> may be missing. \<open>RAW_OTHER t\<close> is an action whose
  type \<open>t\<close> is none of the nine labels of the \<open>switch\<close>, such as \<open>UPDATE_STATISTICS\<close>.
\<close>

datatype RawAction =
    RAW_ADD_PERSON "RawPerson option"
  | RAW_UPDATE_PERSON "(jsstring option \<times> RawPersonUpdates option) option"
  | RAW_DELETE_PERSON "jsstring option"
  | RAW_ADD_ATTENDANCE_RECORD "RawAttendanceRecord option"
  | RAW_UPDATE_ATTENDANCE_RECORD "(jsstring option \<times> RawAttendanceRecordUpdates option) option"
  | RAW_START_TRAINING_SESSION "RawTrainingSession option"
  | RAW_UPDATE_TRAINING_SESSION "(jsstring option \<times> RawTrainingSessionUpdates option) option"
  | RAW_START_ATTENDANCE_SESSION "jsstring option option"
  | RAW_END_ATTENDANCE_SESSION
  | RAW_OTHER jsstring

text \<open>
  The state at run time: an add action appends its payload whatever it is, so an element of
  a collection may be \<open>undefined\<close>.
\<close>

record RawState =
  raw_persons :: "RawPerson option list"
  raw_attendanceRecords :: "RawAttendanceRecord option list"
  raw_trainingSessions :: "RawTrainingSession option list"
  raw_currentSession :: CurrentSession
  raw_statistics :: Statistics

text \<open>\<open>{ ...x, ...updates }\<close> at run time; spreading \<open>undefined\<close> adds no key.\<close>

definition spread_RawPerson :: "RawPerson \<Rightarrow> RawPersonUpdates option \<Rightarrow> RawPerson" where
  "spread_RawPerson p updates =
     (case updates of None \<Rightarrow> p
      | Some u \<Rightarrow> \<lparr>
          RP_id = spread (RP_id p) (RPU_id u),
          RP_name = spread (RP_name p) (RPU_name u),
          RP_email = spread (RP_email p) (RPU_email u),
          RP_department = spread (RP_department p) (RPU_department u),
          RP_imageCount = spread (RP_imageCount p) (RPU_imageCount u),
          RP_isActive = spread (RP_isActive p) (RPU_isActive u),
          RP_createdAt = spread (RP_createdAt p) (RPU_createdAt u) \<rparr>)"

definition spread_RawAttendanceRecord ::
  "RawAttendanceRecord \<Rightarrow> RawAttendanceRecordUpdates option \<Rightarrow> RawAttendanceRecord" where
  "spread_RawAttendanceRecord r updates =
     (case updates of None \<Rightarrow> r
      | Some u \<Rightarrow> \<lparr>
          RR_id = spread (RR_id r) (RRU_id u),
          RR_personId = spread (RR_personId r) (RRU_personId u),
          RR_personName = spread (RR_personName r) (RRU_personName u),
          RR_date = spread (RR_date r) (RRU_date u),
          RR_clockInTime = spread (RR_clockInTime r) (RRU_clockInTime u),
          RR_clockOutTime = spread (RR_clockOutTime r) (RRU_clockOutTime u),
          RR_duration = spread (RR_duration r) (RRU_duration u),
          RR_status = spread (RR_status r) (RRU_status u),
          RR_confidence = spread (RR_confidence r) (RRU_confidence u) \<rparr>)"

definition spread_RawTrainingSession ::
  "RawTrainingSession \<Rightarrow> RawTrainingSessionUpdates option \<Rightarrow> RawTrainingSession" where
  "spread_RawTrainingSession t updates =
     (case updates of None \<Rightarrow> t
      | Some u \<Rightarrow> \<lparr>
          RT_id = spread (RT_id t) (RTU_id u),
          RT_personId = spread (RT_personId t) (RTU_personId u),
          RT_personName = spread (RT_personName t) (RTU_personName u),
          RT_imagesCaptured = spread (RT_imagesCaptured t) (RTU_imagesCaptured u),
          RT_totalImages = spread (RT_totalImages t) (RTU_totalImages u),
          RT_status = spread (RT_status t) (RTU_status u),
          RT_startTime = spread (RT_startTime t) (RTU_startTime u),
          RT_endTime = spread (RT_endTime t) (RTU_endTime u) \<rparr>)"

text \<open>
  \<open>Array.prototype.map\<close> and \<open>filter\<close> with a callback that may throw: the elements are
  visited in order and the first exception leaves the loop.
\<close>

fun map_js :: "('a \<Rightarrow> js_error + 'b) \<Rightarrow> 'a list \<Rightarrow> js_error + 'b list" where
  "map_js f [] = Inr []"
| "map_js f (x # xs) =
     (case f x of Inl e \<Rightarrow> Inl e
      | Inr y \<Rightarrow> (case map_js f xs of Inl e \<Rightarrow> Inl e | Inr ys \<Rightarrow> Inr (y # ys)))"

fun filter_js :: "('a \<Rightarrow> js_error + bool) \<Rightarrow> 'a list \<Rightarrow> js_error + 'a list" where
  "filter_js f [] = Inr []"
| "filter_js f (x # xs) =
     (case f x of Inl e \<Rightarrow> Inl e
      | Inr keep \<Rightarrow>
          (case filter_js f xs of Inl e \<Rightarrow> Inl e
           | Inr ys \<Rightarrow> Inr (if keep then x # ys else ys)))"

text \<open>
  The callbacks of the three updates and of the delete. Each reads \<open>x.id\<close> of the
  element first, then \<open>action.payload.id\<close> (or compares with \<open>action.payload\<close> itself).
\<close>

definition patch_js ::
  "('e \<Rightarrow> jsstring option) \<Rightarrow> ('e \<Rightarrow> 'u option \<Rightarrow> 'e) \<Rightarrow> (jsstring option \<times> 'u option) option
     \<Rightarrow> 'e option \<Rightarrow> js_error + 'e option" where
  "patch_js ident merge payload element =
     (case element of None \<Rightarrow> Inl TypeError
      | Some x \<Rightarrow>
          (case payload of None \<Rightarrow> Inl TypeError
           | Some (wanted, updates) \<Rightarrow>
               Inr (Some (if ident x = wanted then merge x updates else x))))"

definition keep_js :: "jsstring option \<Rightarrow> RawPerson option \<Rightarrow> js_error + bool" where
  "keep_js payload person =
     (case person of None \<Rightarrow> Inl TypeError | Some p \<Rightarrow> Inr (RP_id p \<noteq> payload))"

fun attendanceReducer_raw :: "date \<Rightarrow> RawState \<Rightarrow> RawAction \<Rightarrow> js_error + RawState" where
  "attendanceReducer_raw now state (RAW_ADD_PERSON payload) =
     Inr (state\<lparr> raw_persons := raw_persons state @ [payload],
            raw_statistics := (raw_statistics state)\<lparr>
              totalPersons := totalPersons (raw_statistics state) + 1 \<rparr> \<rparr>)"
| "attendanceReducer_raw now state (RAW_UPDATE_PERSON payload) =
     (case map_js (patch_js RP_id spread_RawPerson payload) (raw_persons state) of
        Inl e \<Rightarrow> Inl e
      | Inr ps \<Rightarrow> Inr (state\<lparr> raw_persons := ps \<rparr>))"
| "attendanceReducer_raw now state (RAW_DELETE_PERSON payload) =
     (case filter_js (keep_js payload) (raw_persons state) of
        Inl e \<Rightarrow> Inl e
      | Inr ps \<Rightarrow>
          Inr (state\<lparr> raw_persons := ps,
                 raw_statistics := (raw_statistics state)\<lparr>
                   totalPersons := totalPersons (raw_statistics state) - 1 \<rparr> \<rparr>))"
| "attendanceReducer_raw now state (RAW_ADD_ATTENDANCE_RECORD payload) =
     (case payload of None \<Rightarrow> Inl TypeError
      | Some newRecord \<Rightarrow>
          (let isClockIn = truthy (RR_clockInTime newRecord) \<and> \<not> truthy (RR_clockOutTime newRecord);
               isClockOut = truthy (RR_clockOutTime newRecord)
           in Inr (state\<lparr> raw_attendanceRecords := raw_attendanceRecords state @ [payload],
                raw_statistics := (raw_statistics state)\<lparr>
                  totalClockIns := (if isClockIn then totalClockIns (raw_statistics state) + 1
                                    else totalClockIns (raw_statistics state)),
                  totalClockOuts := (if isClockOut then totalClockOuts (raw_statistics state) + 1
                                     else totalClockOuts (raw_statistics state)),
                  presentToday := (if RR_status newRecord = Some Present
                                   then presentToday (raw_statistics state) + 1
                                   else presentToday (raw_statistics state)) \<rparr> \<rparr>)))"
| "attendanceReducer_raw now state (RAW_UPDATE_ATTENDANCE_RECORD payload) =
     (case map_js (patch_js RR_id spread_RawAttendanceRecord payload) (raw_attendanceRecords state) of
        Inl e \<Rightarrow> Inl e
      | Inr rs \<Rightarrow> Inr (state\<lparr> raw_attendanceRecords := rs \<rparr>))"
| "attendanceReducer_raw now state (RAW_START_TRAINING_SESSION payload) =
     Inr (state\<lparr> raw_trainingSessions := raw_trainingSessions state @ [payload] \<rparr>)"
| "attendanceReducer_raw now state (RAW_UPDATE_TRAINING_SESSION payload) =
     (case map_js (patch_js RT_id spread_RawTrainingSession payload) (raw_trainingSessions state) of
        Inl e \<Rightarrow> Inl e
      | Inr ts \<Rightarrow> Inr (state\<lparr> raw_trainingSessions := ts \<rparr>))"
| "attendanceReducer_raw now state (RAW_START_ATTENDANCE_SESSION payload) =
     (case payload of None \<Rightarrow> Inl TypeError
      | Some duration \<Rightarrow>
          Inr (state\<lparr> raw_currentSession :=
                 \<lparr> isActive = True, lectureDuration = duration, startTime = Some now \<rparr> \<rparr>))"
| "attendanceReducer_raw now state RAW_END_ATTENDANCE_SESSION =
     Inr (state\<lparr> raw_currentSession :=
            \<lparr> isActive = False, lectureDuration = None, startTime = None \<rparr> \<rparr>)"
| "attendanceReducer_raw now state (RAW_OTHER t) = Inr state"

text \<open>
  How the values of the declared types appear at run time: every required field present,
  an optional field present or not, a patch with the keys it has.
\<close>

definition raw_Person :: "Person \<Rightarrow> RawPerson" where
  "raw_Person p = \<lparr> RP_id = Some (P_id p), RP_name = Some (P_name p), RP_email = P_email p,
     RP_department = P_department p, RP_imageCount = P_imageCount p,
     RP_isActive = Some (P_isActive p), RP_createdAt = Some (P_createdAt p) \<rparr>"

definition raw_AttendanceRecord :: "AttendanceRecord \<Rightarrow> RawAttendanceRecord" where
  "raw_AttendanceRecord r = \<lparr> RR_id = Some (R_id r), RR_personId = Some (R_personId r),
     RR_personName = Some (R_personName r), RR_date = Some (R_date r),
     RR_clockInTime = R_clockInTime r, RR_clockOutTime = R_clockOutTime r,
     RR_duration = R_duration r, RR_status = Some (R_status r),
     RR_confidence = R_confidence r \<rparr>"

definition raw_TrainingSession :: "TrainingSession \<Rightarrow> RawTrainingSession" where
  "raw_TrainingSession t = \<lparr> RT_id = Some (T_id t), RT_personId = Some (T_personId t),
     RT_personName = Some (T_personName t), RT_imagesCaptured = Some (T_imagesCaptured t),
     RT_totalImages = Some (T_totalImages t), RT_status = Some (T_status t),
     RT_startTime = Some (T_startTime t), RT_endTime = T_endTime t \<rparr>"

definition raw_PersonUpdates :: "PersonUpdates \<Rightarrow> RawPersonUpdates" where
  "raw_PersonUpdates u = \<lparr> RPU_id = map_option Some (PU_id u),
     RPU_name = map_option Some (PU_name u), RPU_email = PU_email u,
     RPU_department = PU_department u, RPU_imageCount = PU_imageCount u,
     RPU_isActive = map_option Some (PU_isActive u),
     RPU_createdAt = map_option Some (PU_createdAt u) \<rparr>"

definition raw_AttendanceRecordUpdates :: "AttendanceRecordUpdates \<Rightarrow> RawAttendanceRecordUpdates" where
  "raw_AttendanceRecordUpdates u = \<lparr> RRU_id = map_option Some (RU_id u),
     RRU_personId = map_option Some (RU_personId u),
     RRU_personName = map_option Some (RU_personName u), RRU_date = map_option Some (RU_date u),
     RRU_clockInTime = RU_clockInTime u, RRU_clockOutTime = RU_clockOutTime u,
     RRU_duration = RU_duration u, RRU_status = map_option Some (RU_status u),
     RRU_confidence = RU_confidence u \<rparr>"

definition raw_TrainingSessionUpdates :: "TrainingSessionUpdates \<Rightarrow> RawTrainingSessionUpdates" where
  "raw_TrainingSessionUpdates u = \<lparr> RTU_id = map_option Some (TU_id u),
     RTU_personId = map_option Some (TU_personId u),
     RTU_personName = map_option Some (TU_personName u),
     RTU_imagesCaptured = map_option Some (TU_imagesCaptured u),
     RTU_totalImages = map_option Some (TU_totalImages u),
     RTU_status = map_option Some (TU_status u),
     RTU_startTime = map_option Some (TU_startTime u), RTU_endTime = TU_endTime u \<rparr>"

fun raw_Action :: "AttendanceAction \<Rightarrow> RawAction" where
  "raw_Action (ADD_PERSON p) = RAW_ADD_PERSON (Some (raw_Person p))"
| "raw_Action (UPDATE_PERSON i u) = RAW_UPDATE_PERSON (Some (Some i, Some (raw_PersonUpdates u)))"
| "raw_Action (DELETE_PERSON i) = RAW_DELETE_PERSON (Some i)"
| "raw_Action (ADD_ATTENDANCE_RECORD r) = RAW_ADD_ATTENDANCE_RECORD (Some (raw_AttendanceRecord r))"
| "raw_Action (UPDATE_ATTENDANCE_RECORD i u) =
     RAW_UPDATE_ATTENDANCE_RECORD (Some (Some i, Some (raw_AttendanceRecordUpdates u)))"
| "raw_Action (START_TRAINING_SESSION t) = RAW_START_TRAINING_SESSION (Some (raw_TrainingSession t))"
| "raw_Action (UPDATE_TRAINING_SESSION i u) =
     RAW_UPDATE_TRAINING_SESSION (Some (Some i, Some (raw_TrainingSessionUpdates u)))"
| "raw_Action (START_ATTENDANCE_SESSION d) = RAW_START_ATTENDANCE_SESSION (Some (Some d))"
| "raw_Action END_ATTENDANCE_SESSION = RAW_END_ATTENDANCE_SESSION"
| "raw_Action UPDATE_STATISTICS = RAW_OTHER (js ''UPDATE_STATISTICS'')"

definition raw_State :: "AttendanceState \<Rightarrow> RawState" where
  "raw_State s = \<lparr>
     raw_persons = map (\<lambda>p. Some (raw_Person p)) (persons s),
     raw_attendanceRecords = map (\<lambda>r. Some (raw_AttendanceRecord r)) (attendanceRecords s),
     raw_trainingSessions = map (\<lambda>t. Some (raw_TrainingSession t)) (trainingSessions s),
     raw_currentSession = currentSession s,
     raw_statistics = statistics s \<rparr>"

text \<open>
  A state whose collections hold no \<open>undefined\<close>, and an action that carries the payload
  object its case reads, whatever fields that object has or lacks.
\<close>

definition entriesDefined :: "RawState \<Rightarrow> bool" where
  "entriesDefined s =
     (None \<notin> set (raw_persons s) \<and> None \<notin> set (raw_attendanceRecords s) \<and>
      None \<notin> set (raw_trainingSessions s))"

fun payloadPresent :: "RawAction \<Rightarrow> bool" where
  "payloadPresent (RAW_ADD_PERSON payload) = (payload \<noteq> None)"
| "payloadPresent (RAW_UPDATE_PERSON payload) = (payload \<noteq> None)"
| "payloadPresent (RAW_DELETE_PERSON payload) = True"
| "payloadPresent (RAW_ADD_ATTENDANCE_RECORD payload) = (payload \<noteq> None)"
| "payloadPresent (RAW_UPDATE_ATTENDANCE_RECORD payload) = (payload \<noteq> None)"
| "payloadPresent (RAW_START_TRAINING_SESSION payload) = (payload \<noteq> None)"
| "payloadPresent (RAW_UPDATE_TRAINING_SESSION payload) = (payload \<noteq> None)"
| "payloadPresent (RAW_START_ATTENDANCE_SESSION payload) = (payload \<noteq> None)"
| "payloadPresent RAW_END_ATTENDANCE_SESSION = True"
| "payloadPresent (RAW_OTHER t) = True"

text \<open>A person object with no field at all.\<close>

definition emptyObject :: RawPerson where
  "emptyObject = \<lparr> RP_id = None, RP_name = None, RP_email = None, RP_department = None,
     RP_imageCount = None, RP_isActive = None, RP_createdAt = None \<rparr>"

section \<open>Frame properties of the reducer\<close>

text \<open>
  C3. For every state and every \<open>UPDATE_ATTENDANCE_RECORD\<close> action, with any id and any
  patch, the statistics of the resulting state are the statistics of the input state; a
  patch that sets the status to Present or adds a clock-out time changes none of the four
  counters.
\<close>

theorem update_attendance_record_keeps_statistics:
  "statistics (attendanceReducer now state (UPDATE_ATTENDANCE_RECORD ident updates))
     = statistics state"
  by simp

text \<open>
  C10. Every action leaves the components it does not target unchanged: the three person
  actions leave attendanceRecords, trainingSessions and currentSession as they are (and
  \<open>UPDATE_PERSON\<close> the statistics too); the two attendance-record actions leave persons,
  trainingSessions and currentSession; the two training-session actions leave persons,
  attendanceRecords, currentSession and statistics; the two session actions leave persons,
  attendanceRecords, trainingSessions and statistics.
\<close>

theorem untargeted_components_unchanged:
  "attendanceRecords (attendanceReducer now s (ADD_PERSON p)) = attendanceRecords s \<and>
   trainingSessions (attendanceReducer now s (ADD_PERSON p)) = trainingSessions s \<and>
   currentSession (attendanceReducer now s (ADD_PERSON p)) = currentSession s \<and>
   attendanceRecords (attendanceReducer now s (UPDATE_PERSON i pu)) = attendanceRecords s \<and>
   trainingSessions (attendanceReducer now s (UPDATE_PERSON i pu)) = trainingSessions s \<and>
   currentSession (attendanceReducer now s (UPDATE_PERSON i pu)) = currentSession s \<and>
   statistics (attendanceReducer now s (UPDATE_PERSON i pu)) = statistics s \<and>
   attendanceRecords (attendanceReducer now s (DELETE_PERSON i)) = attendanceRecords s \<and>
   trainingSessions (attendanceReducer now s (DELETE_PERSON i)) = trainingSessions s \<and>
   currentSession (attendanceReducer now s (DELETE_PERSON i)) = currentSession s \<and>
   persons (attendanceReducer now s (ADD_ATTENDANCE_RECORD r)) = persons s \<and>
   trainingSessions (attendanceReducer now s (ADD_ATTENDANCE_RECORD r)) = trainingSessions s \<and>
   currentSession (attendanceReducer now s (ADD_ATTENDANCE_RECORD r)) = currentSession s \<and>
   persons (attendanceReducer now s (UPDATE_ATTENDANCE_RECORD i ru)) = persons s \<and>
   trainingSessions (attendanceReducer now s (UPDATE_ATTENDANCE_RECORD i ru)) = trainingSessions s \<and>
   currentSession (attendanceReducer now s (UPDATE_ATTENDANCE_RECORD i ru)) = currentSession s \<and>
   persons (attendanceReducer now s (START_TRAINING_SESSION t)) = persons s \<and>
   attendanceRecords (attendanceReducer now s (START_TRAINING_SESSION t)) = attendanceRecords s \<and>
   currentSession (attendanceReducer now s (START_TRAINING_SESSION t)) = currentSession s \<and>
   statistics (attendanceReducer now s (START_TRAINING_SESSION t)) = statistics s \<and>
   persons (attendanceReducer now s (UPDATE_TRAINING_SESSION i tu)) = persons s \<and>
   attendanceRecords (attendanceReducer now s (UPDATE_TRAINING_SESSION i tu)) = attendanceRecords s \<and>
   currentSession (attendanceReducer now s (UPDATE_TRAINING_SESSION i tu)) = currentSession s \<and>
   statistics (attendanceReducer now s (UPDATE_TRAINING_SESSION i tu)) = statistics s \<and>
   persons (attendanceReducer now s (START_ATTENDANCE_SESSION d)) = persons s \<and>
   attendanceRecords (attendanceReducer now s (START_ATTENDANCE_SESSION d)) = attendanceRecords s \<and>
   trainingSessions (attendanceReducer now s (START_ATTENDANCE_SESSION d)) = trainingSessions s \<and>
   statistics (attendanceReducer now s (START_ATTENDANCE_SESSION d)) = statistics s \<and>
   persons (attendanceReducer now s END_ATTENDANCE_SESSION) = persons s \<and>
   attendanceRecords (attendanceReducer now s END_ATTENDANCE_SESSION) = attendanceRecords s \<and>
   trainingSessions (attendanceReducer now s END_ATTENDANCE_SESSION) = trainingSessions s \<and>
   statistics (attendanceReducer now s END_ATTENDANCE_SESSION) = statistics s"
  by (simp add: Let_def)

section \<open>The attendance session\<close>

text \<open>
  C9. On every state, \<open>START_ATTENDANCE_SESSION\<close> with a lecture duration makes the
  current session active, stores that duration and records the clock reading as the start
  time; \<open>END_ATTENDANCE_SESSION\<close>, applied right after it or to any other state, makes
  the session inactive and leaves neither a duration nor a start time.
\<close>

theorem start_then_end_attendance_session:
  "currentSession (attendanceReducer now s (START_ATTENDANCE_SESSION d))
     = \<lparr> isActive = True, lectureDuration = Some d, startTime = Some now \<rparr> \<and>
   currentSession (attendanceReducer later (attendanceReducer now s (START_ATTENDANCE_SESSION d))
       END_ATTENDANCE_SESSION)
     = \<lparr> isActive = False, lectureDuration = None, startTime = None \<rparr> \<and>
   currentSession (attendanceReducer later s' END_ATTENDANCE_SESSION)
     = \<lparr> isActive = False, lectureDuration = None, startTime = None \<rparr>"
  by simp

section \<open>Appending an attendance record\<close>

text \<open>
  C2, as the claim states it, fails when a time is present but empty: with "set" read as
  "the field is present", a record whose clock-in time is the empty string and whose
  clock-out time is absent should raise totalClockIns, and the reducer leaves it alone,
  because its condition tests truthiness.
\<close>

theorem blank_clock_in_not_counted:
  "R_clockInTime blankClockIn \<noteq> None \<and> R_clockOutTime blankClockIn = None \<and>
   totalClockIns (statistics (attendanceReducer 0 initialState (ADD_ATTENDANCE_RECORD blankClockIn)))
     = totalClockIns (statistics initialState)"
  by (simp add: blankClockIn_def truthy_def initialState_def)

text \<open>
  C2, amended. For every state and every attendance record, \<open>ADD_ATTENDANCE_RECORD\<close>
  appends the record to attendanceRecords; totalClockIns goes up by exactly 1 if and only
  if the clock-in time is a non-empty string and the clock-out time is absent or empty,
  and is unchanged otherwise; totalClockOuts goes up by exactly 1 if and only if the
  clock-out time is a non-empty string; presentToday goes up by exactly 1 if and only if
  the status is Present; totalPersons is unchanged.
\<close>

theorem add_attendance_record_effect:
  "attendanceRecords (attendanceReducer now state (ADD_ATTENDANCE_RECORD r))
     = attendanceRecords state @ [r] \<and>
   totalClockIns (statistics (attendanceReducer now state (ADD_ATTENDANCE_RECORD r)))
     = totalClockIns (statistics state)
       + (if (\<exists>t. R_clockInTime r = Some t \<and> t \<noteq> []) \<and>
             (R_clockOutTime r = None \<or> R_clockOutTime r = Some [])
          then 1 else 0) \<and>
   totalClockOuts (statistics (attendanceReducer now state (ADD_ATTENDANCE_RECORD r)))
     = totalClockOuts (statistics state)
       + (if \<exists>t. R_clockOutTime r = Some t \<and> t \<noteq> [] then 1 else 0) \<and>
   presentToday (statistics (attendanceReducer now state (ADD_ATTENDANCE_RECORD r)))
     = presentToday (statistics state) + (if R_status r = Present then 1 else 0) \<and>
   totalPersons (statistics (attendanceReducer now state (ADD_ATTENDANCE_RECORD r)))
     = totalPersons (statistics state)"
  by (cases "R_clockInTime r"; cases "R_clockOutTime r") (simp_all add: Let_def truthy_def)

theorem add_attendance_record_effect_witness:
  "statistics (attendanceReducer 0 initialState (ADD_ATTENDANCE_RECORD clockInRecord))
     = \<lparr> totalPersons = 3, presentToday = 1, totalClockIns = 1, totalClockOuts = 0 \<rparr> \<and>
   statistics (attendanceReducer 0 initialState (ADD_ATTENDANCE_RECORD clockedOutRecord))
     = \<lparr> totalPersons = 3, presentToday = 0, totalClockIns = 0, totalClockOuts = 1 \<rparr> \<and>
   statistics (attendanceReducer 0 initialState (ADD_ATTENDANCE_RECORD blankClockIn))
     = \<lparr> totalPersons = 3, presentToday = 0, totalClockIns = 0, totalClockOuts = 0 \<rparr> \<and>
   attendanceRecords (attendanceReducer 0 initialState (ADD_ATTENDANCE_RECORD clockInRecord))
     = [clockInRecord]"
proof -
  have init: "statistics initialState
      = \<lparr> totalPersons = 3, presentToday = 0, totalClockIns = 0, totalClockOuts = 0 \<rparr>"
    "attendanceRecords initialState = []"
    by (simp_all add: initialState_def)
  have a: "R_clockInTime clockInRecord = Some (js ''09:00:00'')" "js ''09:00:00'' \<noteq> []"
    "R_clockOutTime clockInRecord = None" "R_status clockInRecord = Present"
    by (simp_all add: clockInRecord_def js_def)
  have b: "R_clockInTime clockedOutRecord = Some (js ''09:00:00'')"
    "R_clockOutTime clockedOutRecord = Some (js ''17:00:00'')" "js ''17:00:00'' \<noteq> []"
    "R_status clockedOutRecord = Late"
    by (simp_all add: clockedOutRecord_def clockInRecord_def js_def)
  have c: "R_clockInTime blankClockIn = Some []" "R_clockOutTime blankClockIn = None"
    "R_status blankClockIn = Absent"
    by (simp_all add: blankClockIn_def)
  have eq: "st = \<lparr> totalPersons = totalPersons st, presentToday = presentToday st,
      totalClockIns = totalClockIns st, totalClockOuts = totalClockOuts st \<rparr>" for st :: Statistics
    by simp
  note one = add_attendance_record_effect [of 0 initialState clockInRecord]
  note two = add_attendance_record_effect [of 0 initialState clockedOutRecord]
  note three = add_attendance_record_effect [of 0 initialState blankClockIn]
  have "statistics (attendanceReducer 0 initialState (ADD_ATTENDANCE_RECORD clockInRecord))
     = \<lparr> totalPersons = 3, presentToday = 1, totalClockIns = 1, totalClockOuts = 0 \<rparr>"
    by (subst eq) (simp only: one, simp add: init a)
  moreover have "statistics (attendanceReducer 0 initialState (ADD_ATTENDANCE_RECORD clockedOutRecord))
     = \<lparr> totalPersons = 3, presentToday = 0, totalClockIns = 0, totalClockOuts = 1 \<rparr>"
    by (subst eq) (simp only: two, simp add: init b)
  moreover have "statistics (attendanceReducer 0 initialState (ADD_ATTENDANCE_RECORD blankClockIn))
     = \<lparr> totalPersons = 3, presentToday = 0, totalClockIns = 0, totalClockOuts = 0 \<rparr>"
    by (subst eq) (simp only: three, simp add: init c)
  moreover have "attendanceRecords (attendanceReducer 0 initialState (ADD_ATTENDANCE_RECORD clockInRecord))
     = [clockInRecord]"
    by (simp only: one) (simp add: init)
  ultimately show ?thesis by (simp only: simp_thms)
qed

section \<open>Counters and roster size over a run\<close>

lemma totalPersons_step:
  "totalPersons (statistics (attendanceReducer now s a))
     = totalPersons (statistics s) + (if isAddPerson a then 1 else 0)
         - (if isDeletePerson a then 1 else 0)"
  by (cases a) (simp_all add: Let_def)

lemma totalPersons_dispatchAll:
  "totalPersons (statistics (dispatchAll s acts))
     = totalPersons (statistics s) + int (addsApplied acts) - int (deletesApplied acts)"
proof (induction acts arbitrary: s)
  case Nil
  show ?case by (simp add: addsApplied_def deletesApplied_def)
next
  case (Cons x acts)
  obtain now a where x: "x = (now, a)" by (cases x)
  show ?case
    using Cons.IH [of "attendanceReducer now s a"]
    by (simp add: x totalPersons_step addsApplied_def deletesApplied_def)
qed

lemma length_filter_split:
  "length (filter (\<lambda>x. \<not> P x) xs) + length (filter P xs) = length xs"
  by (induction xs) simp_all

lemma roster_step:
  "int (length (persons (attendanceReducer now s a)))
     = int (length (persons s)) + (if isAddPerson a then 1 else 0) - int (removed s a)"
proof (cases a)
  case (DELETE_PERSON i)
  have "length (filter (\<lambda>p. P_id p \<noteq> i) (persons s)) + length (filter (\<lambda>p. P_id p = i) (persons s))
          = length (persons s)"
    by (rule length_filter_split)
  then show ?thesis by (simp add: DELETE_PERSON entriesWithId_def)
qed (simp_all add: Let_def)

lemma roster_dispatchAll:
  "int (length (persons (dispatchAll s acts)))
     = int (length (persons s)) + int (addsApplied acts) - int (entriesRemoved s acts)"
proof (induction acts arbitrary: s)
  case Nil
  show ?case by (simp add: addsApplied_def)
next
  case (Cons x acts)
  obtain now a where x: "x = (now, a)" by (cases x)
  show ?case
    using Cons.IH [of "attendanceReducer now s a"]
    by (simp add: x roster_step addsApplied_def)
qed

lemma matched_removed: "removed s a \<le> 1 \<Longrightarrow> matched s a = removed s a"
  by (cases a) auto

lemma successful_eq_removed:
  "deletesMeetUniqueIds s acts \<Longrightarrow> successfulDeletes s acts = entriesRemoved s acts"
proof (induction acts arbitrary: s)
  case Nil
  show ?case by simp
next
  case (Cons x acts)
  obtain now a where x: "x = (now, a)" by (cases x)
  from Cons.prems show ?case
    by (simp add: x matched_removed Cons.IH)
qed

text \<open>
  C1, as the claim states it, fails on the roster's length: after adding a person whose id
  is already in the roster, one DeletePerson of that id removes both entries, so the length
  drops by two while one deletion matched.
\<close>

theorem twin_deleted_with_original:
  "int (length (persons (dispatchAll initialState
       [(0, ADD_PERSON duplicateOfFirst), (1, DELETE_PERSON (js ''1''))])))
   \<noteq> int (length (persons initialState))
       + int (addsApplied [(0, ADD_PERSON duplicateOfFirst), (1, DELETE_PERSON (js ''1''))])
       - int (successfulDeletes initialState
           [(0, ADD_PERSON duplicateOfFirst), (1, DELETE_PERSON (js ''1''))])"
  by (simp add: initialState_def duplicateOfFirst_def addsApplied_def entriesWithId_def js_def)

text \<open>
  C1, amended. From the initial state, after any sequence of actions, totalPersons is its
  initial value plus the number of AddPerson actions minus the number of DeletePerson
  actions, whether or not the deleted id was in the roster. The roster's length is its
  initial length plus the number of AddPerson actions minus the number of roster entries
  that the DeletePerson actions removed, each removing every entry of its id; when each
  DeletePerson meets at most one entry of its id, that is the number of DeletePerson
  actions whose id matched an entry.
\<close>

theorem counters_after_actions:
  "totalPersons (statistics (dispatchAll initialState acts))
     = totalPersons (statistics initialState) + int (addsApplied acts) - int (deletesApplied acts) \<and>
   int (length (persons (dispatchAll initialState acts)))
     = int (length (persons initialState)) + int (addsApplied acts)
         - int (entriesRemoved initialState acts) \<and>
   (deletesMeetUniqueIds initialState acts \<longrightarrow>
      int (length (persons (dispatchAll initialState acts)))
        = int (length (persons initialState)) + int (addsApplied acts)
            - int (successfulDeletes initialState acts))"
  by (simp add: totalPersons_dispatchAll roster_dispatchAll successful_eq_removed)

theorem counters_after_actions_witness:
  "deletesMeetUniqueIds initialState
      [(0, ADD_PERSON fourthPerson), (1, DELETE_PERSON (js ''4'')), (2, DELETE_PERSON (js ''9''))] \<and>
   totalPersons (statistics (dispatchAll initialState
      [(0, ADD_PERSON fourthPerson), (1, DELETE_PERSON (js ''4'')), (2, DELETE_PERSON (js ''9''))])) = 2 \<and>
   length (persons (dispatchAll initialState
      [(0, ADD_PERSON fourthPerson), (1, DELETE_PERSON (js ''4'')), (2, DELETE_PERSON (js ''9''))])) = 3 \<and>
   successfulDeletes initialState
      [(0, ADD_PERSON fourthPerson), (1, DELETE_PERSON (js ''4'')), (2, DELETE_PERSON (js ''9''))] = 1"
  using counters_after_actions
    [of "[(0, ADD_PERSON fourthPerson), (1, DELETE_PERSON (js ''4'')), (2, DELETE_PERSON (js ''9''))]"]
  by (simp add: initialState_def fourthPerson_def addsApplied_def deletesApplied_def
      entriesWithId_def js_def)

section \<open>Uniqueness of person identifiers\<close>

lemma idKept_step:
  assumes "distinct (map P_id (persons s))" and "idKept s a"
  shows "distinct (map P_id (persons (attendanceReducer now s a)))"
proof (cases a)
  case (ADD_PERSON p)
  with assms show ?thesis by simp
next
  case (UPDATE_PERSON i u)
  have "map P_id (persons (attendanceReducer now s a)) = map P_id (persons s)"
    using assms(2) by (auto simp: UPDATE_PERSON spread_Person_def spread_def)
  with assms(1) show ?thesis by (simp only:)
next
  case (DELETE_PERSON i)
  with assms(1) show ?thesis by (simp add: distinct_map_filter)
qed (use assms(1) in \<open>simp_all add: Let_def\<close>)

lemma idsKept_dispatchAll:
  "distinct (map P_id (persons s)) \<Longrightarrow> idsKept s acts
     \<Longrightarrow> distinct (map P_id (persons (dispatchAll s acts)))"
proof (induction acts arbitrary: s)
  case Nil
  then show ?case by simp
next
  case (Cons x acts)
  obtain now a where x: "x = (now, a)" by (cases x)
  from Cons.prems have "distinct (map P_id (persons (attendanceReducer now s a)))"
    by (simp add: x idKept_step)
  with Cons.prems show ?case by (simp add: x Cons.IH)
qed

lemma initial_ids_distinct: "distinct (map P_id (persons initialState))"
  by (simp add: initialState_def js_def)

text \<open>
  C5, as the claim states it, fails: AddPerson with the id of a seeded person is applied
  like any other, and the roster then holds that id twice.
\<close>

theorem add_person_repeats_id:
  "\<not> distinct (map P_id (persons (attendanceReducer 0 initialState (ADD_PERSON duplicateOfFirst))))"
  by (simp add: initialState_def duplicateOfFirst_def js_def)

text \<open>
  C5, amended. The ids of the initial roster are unique, and they are unique in every state
  reached from the initial state by actions in which each AddPerson carries an id that is
  not in the roster at that moment and each UpdatePerson patch has no id or the id it
  selects; on a roster with unique ids, AddPerson keeps them unique exactly when the new
  id is not yet in the roster.
\<close>

theorem person_ids_unique_when_kept:
  "distinct (map P_id (persons initialState)) \<and>
   (idsKept initialState acts \<longrightarrow> distinct (map P_id (persons (dispatchAll initialState acts)))) \<and>
   (distinct (map P_id (persons s)) \<longrightarrow>
      distinct (map P_id (persons (attendanceReducer now s (ADD_PERSON p))))
        = (P_id p \<notin> set (map P_id (persons s))))"
  by (simp add: initial_ids_distinct idsKept_dispatchAll)

theorem person_ids_unique_when_kept_witness:
  "idsKept initialState
     [(0, ADD_PERSON fourthPerson), (1, UPDATE_PERSON (js ''4'') renameOnly), (2, DELETE_PERSON (js ''2''))] \<and>
   distinct (map P_id (persons (dispatchAll initialState
     [(0, ADD_PERSON fourthPerson), (1, UPDATE_PERSON (js ''4'') renameOnly), (2, DELETE_PERSON (js ''2''))]))) \<and>
   distinct (map P_id (persons initialState)) \<and>
   P_id fourthPerson \<notin> set (map P_id (persons initialState)) \<and>
   distinct (map P_id (persons (attendanceReducer 0 initialState (ADD_PERSON fourthPerson))))"
  using person_ids_unique_when_kept
    [of "[(0, ADD_PERSON fourthPerson), (1, UPDATE_PERSON (js ''4'') renameOnly), (2, DELETE_PERSON (js ''2''))]"
        initialState 0 fourthPerson]
  by (simp add: initialState_def fourthPerson_def renameOnly_def js_def)

section \<open>Which entries a patch reaches\<close>

lemma map_patch_miss:
  "i \<notin> set (map sel xs) \<Longrightarrow> map (\<lambda>x. if sel x = i then f x else x) xs = xs"
  by (induction xs) auto

text \<open>
  C4, as the claim states it, fails: with the id of the first seeded person held twice, at
  positions 0 and 3, an UpdatePerson of that id changes the entry at position 3 as well.
\<close>

theorem later_match_patched_too:
  "P_id (persons twinState ! 0) = js ''1'' \<and> P_id (persons twinState ! 3) = js ''1'' \<and>
   persons (attendanceReducer 1 twinState (UPDATE_PERSON (js ''1'') renameOnly)) ! 3
     \<noteq> persons twinState ! 3"
  by (simp add: twinState_def initialState_def duplicateOfFirst_def renameOnly_def
      spread_Person_def spread_def js_def)

text \<open>
  C4, amended. For each of UpdatePerson, UpdateAttendanceRecord and UpdateTrainingSession,
  the collection keeps its length and order; every entity whose id equals the given id
  receives the patch, at whatever position and however many there are: each of its fields
  becomes the patch's value when the patch has that key and stays as it was otherwise;
  every entity with another id is left unchanged; when no entity matches, the collection
  is unchanged.
\<close>

theorem update_patches_every_match:
  "length (persons (attendanceReducer now s (UPDATE_PERSON i pu))) = length (persons s) \<and>
   (\<forall>k < length (persons s).
      persons (attendanceReducer now s (UPDATE_PERSON i pu)) ! k
        = (if P_id (persons s ! k) = i
           then \<lparr> P_id = (case PU_id pu of None \<Rightarrow> P_id (persons s ! k) | Some v \<Rightarrow> v),
                  P_name = (case PU_name pu of None \<Rightarrow> P_name (persons s ! k) | Some v \<Rightarrow> v),
                  P_email = (case PU_email pu of None \<Rightarrow> P_email (persons s ! k) | Some v \<Rightarrow> v),
                  P_department =
                    (case PU_department pu of None \<Rightarrow> P_department (persons s ! k) | Some v \<Rightarrow> v),
                  P_imageCount =
                    (case PU_imageCount pu of None \<Rightarrow> P_imageCount (persons s ! k) | Some v \<Rightarrow> v),
                  P_isActive =
                    (case PU_isActive pu of None \<Rightarrow> P_isActive (persons s ! k) | Some v \<Rightarrow> v),
                  P_createdAt =
                    (case PU_createdAt pu of None \<Rightarrow> P_createdAt (persons s ! k) | Some v \<Rightarrow> v) \<rparr>
           else persons s ! k)) \<and>
   (i \<notin> set (map P_id (persons s)) \<longrightarrow>
      persons (attendanceReducer now s (UPDATE_PERSON i pu)) = persons s) \<and>
   length (attendanceRecords (attendanceReducer now s (UPDATE_ATTENDANCE_RECORD i ru)))
     = length (attendanceRecords s) \<and>
   (\<forall>k < length (attendanceRecords s).
      attendanceRecords (attendanceReducer now s (UPDATE_ATTENDANCE_RECORD i ru)) ! k
        = (if R_id (attendanceRecords s ! k) = i
           then \<lparr> R_id = (case RU_id ru of None \<Rightarrow> R_id (attendanceRecords s ! k) | Some v \<Rightarrow> v),
                  R_personId =
                    (case RU_personId ru of None \<Rightarrow> R_personId (attendanceRecords s ! k)
                     | Some v \<Rightarrow> v),
                  R_personName =
                    (case RU_personName ru of None \<Rightarrow> R_personName (attendanceRecords s ! k)
                     | Some v \<Rightarrow> v),
                  R_date = (case RU_date ru of None \<Rightarrow> R_date (attendanceRecords s ! k) | Some v \<Rightarrow> v),
                  R_clockInTime =
                    (case RU_clockInTime ru of None \<Rightarrow> R_clockInTime (attendanceRecords s ! k)
                     | Some v \<Rightarrow> v),
                  R_clockOutTime =
                    (case RU_clockOutTime ru of None \<Rightarrow> R_clockOutTime (attendanceRecords s ! k)
                     | Some v \<Rightarrow> v),
                  R_duration =
                    (case RU_duration ru of None \<Rightarrow> R_duration (attendanceRecords s ! k)
                     | Some v \<Rightarrow> v),
                  R_status =
                    (case RU_status ru of None \<Rightarrow> R_status (attendanceRecords s ! k) | Some v \<Rightarrow> v),
                  R_confidence =
                    (case RU_confidence ru of None \<Rightarrow> R_confidence (attendanceRecords s ! k)
                     | Some v \<Rightarrow> v) \<rparr>
           else attendanceRecords s ! k)) \<and>
   (i \<notin> set (map R_id (attendanceRecords s)) \<longrightarrow>
      attendanceRecords (attendanceReducer now s (UPDATE_ATTENDANCE_RECORD i ru))
        = attendanceRecords s) \<and>
   length (trainingSessions (attendanceReducer now s (UPDATE_TRAINING_SESSION i tu)))
     = length (trainingSessions s) \<and>
   (\<forall>k < length (trainingSessions s).
      trainingSessions (attendanceReducer now s (UPDATE_TRAINING_SESSION i tu)) ! k
        = (if T_id (trainingSessions s ! k) = i
           then \<lparr> T_id = (case TU_id tu of None \<Rightarrow> T_id (trainingSessions s ! k) | Some v \<Rightarrow> v),
                  T_personId =
                    (case TU_personId tu of None \<Rightarrow> T_personId (trainingSessions s ! k)
                     | Some v \<Rightarrow> v),
                  T_personName =
                    (case TU_personName tu of None \<Rightarrow> T_personName (trainingSessions s ! k)
                     | Some v \<Rightarrow> v),
                  T_imagesCaptured =
                    (case TU_imagesCaptured tu of None \<Rightarrow> T_imagesCaptured (trainingSessions s ! k)
                     | Some v \<Rightarrow> v),
                  T_totalImages =
                    (case TU_totalImages tu of None \<Rightarrow> T_totalImages (trainingSessions s ! k)
                     | Some v \<Rightarrow> v),
                  T_status =
                    (case TU_status tu of None \<Rightarrow> T_status (trainingSessions s ! k) | Some v \<Rightarrow> v),
                  T_startTime =
                    (case TU_startTime tu of None \<Rightarrow> T_startTime (trainingSessions s ! k)
                     | Some v \<Rightarrow> v),
                  T_endTime =
                    (case TU_endTime tu of None \<Rightarrow> T_endTime (trainingSessions s ! k)
                     | Some v \<Rightarrow> v) \<rparr>
           else trainingSessions s ! k)) \<and>
   (i \<notin> set (map T_id (trainingSessions s)) \<longrightarrow>
      trainingSessions (attendanceReducer now s (UPDATE_TRAINING_SESSION i tu))
        = trainingSessions s)"
proof -
  have p1: "length (persons (attendanceReducer now s (UPDATE_PERSON i pu))) = length (persons s)"
    by simp
  have p2: "persons (attendanceReducer now s (UPDATE_PERSON i pu)) ! k
        = (if P_id (persons s ! k) = i
           then \<lparr> P_id = (case PU_id pu of None \<Rightarrow> P_id (persons s ! k) | Some v \<Rightarrow> v),
                  P_name = (case PU_name pu of None \<Rightarrow> P_name (persons s ! k) | Some v \<Rightarrow> v),
                  P_email = (case PU_email pu of None \<Rightarrow> P_email (persons s ! k) | Some v \<Rightarrow> v),
                  P_department =
                    (case PU_department pu of None \<Rightarrow> P_department (persons s ! k) | Some v \<Rightarrow> v),
                  P_imageCount =
                    (case PU_imageCount pu of None \<Rightarrow> P_imageCount (persons s ! k) | Some v \<Rightarrow> v),
                  P_isActive =
                    (case PU_isActive pu of None \<Rightarrow> P_isActive (persons s ! k) | Some v \<Rightarrow> v),
                  P_createdAt =
                    (case PU_createdAt pu of None \<Rightarrow> P_createdAt (persons s ! k) | Some v \<Rightarrow> v) \<rparr>
           else persons s ! k)" if "k < length (persons s)" for k
    using that by (auto simp: spread_Person_def spread_def split: option.splits)
  have p3: "i \<notin> set (map P_id (persons s)) \<longrightarrow>
      persons (attendanceReducer now s (UPDATE_PERSON i pu)) = persons s"
    using map_patch_miss [of i P_id "persons s"] by simp
  have r1: "length (attendanceRecords (attendanceReducer now s (UPDATE_ATTENDANCE_RECORD i ru)))
     = length (attendanceRecords s)"
    by simp
  have r2: "attendanceRecords (attendanceReducer now s (UPDATE_ATTENDANCE_RECORD i ru)) ! k
        = (if R_id (attendanceRecords s ! k) = i
           then \<lparr> R_id = (case RU_id ru of None \<Rightarrow> R_id (attendanceRecords s ! k) | Some v \<Rightarrow> v),
                  R_personId =
                    (case RU_personId ru of None \<Rightarrow> R_personId (attendanceRecords s ! k)
                     | Some v \<Rightarrow> v),
                  R_personName =
                    (case RU_personName ru of None \<Rightarrow> R_personName (attendanceRecords s ! k)
                     | Some v \<Rightarrow> v),
                  R_date = (case RU_date ru of None \<Rightarrow> R_date (attendanceRecords s ! k) | Some v \<Rightarrow> v),
                  R_clockInTime =
                    (case RU_clockInTime ru of None \<Rightarrow> R_clockInTime (attendanceRecords s ! k)
                     | Some v \<Rightarrow> v),
                  R_clockOutTime =
                    (case RU_clockOutTime ru of None \<Rightarrow> R_clockOutTime (attendanceRecords s ! k)
                     | Some v \<Rightarrow> v),
                  R_duration =
                    (case RU_duration ru of None \<Rightarrow> R_duration (attendanceRecords s ! k)
                     | Some v \<Rightarrow> v),
                  R_status =
                    (case RU_status ru of None \<Rightarrow> R_status (attendanceRecords s ! k) | Some v \<Rightarrow> v),
                  R_confidence =
                    (case RU_confidence ru of None \<Rightarrow> R_confidence (attendanceRecords s ! k)
                     | Some v \<Rightarrow> v) \<rparr>
           else attendanceRecords s ! k)" if "k < length (attendanceRecords s)" for k
    using that by (auto simp: spread_AttendanceRecord_def spread_def split: option.splits)
  have r3: "i \<notin> set (map R_id (attendanceRecords s)) \<longrightarrow>
      attendanceRecords (attendanceReducer now s (UPDATE_ATTENDANCE_RECORD i ru))
        = attendanceRecords s"
    using map_patch_miss [of i R_id "attendanceRecords s"] by simp
  have t1: "length (trainingSessions (attendanceReducer now s (UPDATE_TRAINING_SESSION i tu)))
     = length (trainingSessions s)"
    by simp
  have t2: "trainingSessions (attendanceReducer now s (UPDATE_TRAINING_SESSION i tu)) ! k
        = (if T_id (trainingSessions s ! k) = i
           then \<lparr> T_id = (case TU_id tu of None \<Rightarrow> T_id (trainingSessions s ! k) | Some v \<Rightarrow> v),
                  T_personId =
                    (case TU_personId tu of None \<Rightarrow> T_personId (trainingSessions s ! k)
                     | Some v \<Rightarrow> v),
                  T_personName =
                    (case TU_personName tu of None \<Rightarrow> T_personName (trainingSessions s ! k)
                     | Some v \<Rightarrow> v),
                  T_imagesCaptured =
                    (case TU_imagesCaptured tu of None \<Rightarrow> T_imagesCaptured (trainingSessions s ! k)
                     | Some v \<Rightarrow> v),
                  T_totalImages =
                    (case TU_totalImages tu of None \<Rightarrow> T_totalImages (trainingSessions s ! k)
                     | Some v \<Rightarrow> v),
                  T_status =
                    (case TU_status tu of None \<Rightarrow> T_status (trainingSessions s ! k) | Some v \<Rightarrow> v),
                  T_startTime =
                    (case TU_startTime tu of None \<Rightarrow> T_startTime (trainingSessions s ! k)
                     | Some v \<Rightarrow> v),
                  T_endTime =
                    (case TU_endTime tu of None \<Rightarrow> T_endTime (trainingSessions s ! k)
                     | Some v \<Rightarrow> v) \<rparr>
           else trainingSessions s ! k)" if "k < length (trainingSessions s)" for k
    using that by (auto simp: spread_TrainingSession_def spread_def split: option.splits)
  have t3: "i \<notin> set (map T_id (trainingSessions s)) \<longrightarrow>
      trainingSessions (attendanceReducer now s (UPDATE_TRAINING_SESSION i tu))
        = trainingSessions s"
    using map_patch_miss [of i T_id "trainingSessions s"] by simp
  from p1 p2 p3 r1 r2 r3 t1 t2 t3 show ?thesis by blast
qed

theorem update_patches_every_match_witness:
  "P_name (persons (attendanceReducer 9 busyState (UPDATE_PERSON (js ''1'') renameOnly)) ! 0)
     = js ''Renamed'' \<and>
   P_name (persons (attendanceReducer 9 busyState (UPDATE_PERSON (js ''1'') renameOnly)) ! 3)
     = js ''Renamed'' \<and>
   P_email (persons (attendanceReducer 9 busyState (UPDATE_PERSON (js ''1'') renameOnly)) ! 0)
     = Some (js ''abhinav@example.com'') \<and>
   persons (attendanceReducer 9 busyState (UPDATE_PERSON (js ''1'') renameOnly)) ! 1
     = persons busyState ! 1 \<and>
   persons (attendanceReducer 9 busyState (UPDATE_PERSON (js ''9'') renameOnly))
     = persons busyState \<and>
   attendanceRecords (attendanceReducer 9 busyState
       (UPDATE_ATTENDANCE_RECORD (js ''1700000000000'') clockOutUpdates)) ! 0
     = clockInRecord\<lparr> R_clockOutTime := Some (js ''17:00:00''),
         R_duration := Some (js ''08:00:00'') \<rparr> \<and>
   attendanceRecords (attendanceReducer 9 busyState
       (UPDATE_ATTENDANCE_RECORD (js ''5'') clockOutUpdates))
     = attendanceRecords busyState \<and>
   trainingSessions (attendanceReducer 9 busyState
       (UPDATE_TRAINING_SESSION (js ''t1'') completedUpdates)) ! 0
     = runningSession\<lparr> T_imagesCaptured := 101, T_status := completed, T_endTime := Some 2000 \<rparr> \<and>
   trainingSessions (attendanceReducer 9 busyState
       (UPDATE_TRAINING_SESSION (js ''t2'') completedUpdates))
     = trainingSessions busyState"
proof -
  have ps: "persons busyState = persons initialState @ [duplicateOfFirst]"
    and rs: "attendanceRecords busyState = [clockInRecord]"
    and ts: "trainingSessions busyState = [runningSession]"
    by (simp_all add: busyState_def twinState_def Let_def initialState_def)
  have idsP: "P_id (persons busyState ! 0) = js ''1''" "P_id (persons busyState ! 3) = js ''1''"
    "P_id (persons busyState ! 1) \<noteq> js ''1''"
    "js ''9'' \<notin> set (map P_id (persons busyState))" "length (persons busyState) = 4"
    by (simp_all add: ps initialState_def duplicateOfFirst_def js_def)
  have idsR: "R_id (attendanceRecords busyState ! 0) = js ''1700000000000''"
    "js ''5'' \<notin> set (map R_id (attendanceRecords busyState))"
    "length (attendanceRecords busyState) = 1"
    by (simp_all add: rs clockInRecord_def js_def)
  have idsT: "T_id (trainingSessions busyState ! 0) = js ''t1''"
    "js ''t2'' \<notin> set (map T_id (trainingSessions busyState))"
    "length (trainingSessions busyState) = 1"
    by (simp_all add: ts runningSession_def js_def)
  note hitP = update_patches_every_match [where now = 9 and s = busyState and i = "js ''1''" and pu = renameOnly,
      THEN conjunct2,
      THEN conjunct1, rule_format]
  note missP = update_patches_every_match [where now = 9 and s = busyState and i = "js ''9''" and pu = renameOnly,
      THEN conjunct2,
      THEN conjunct2,
      THEN conjunct1, rule_format, OF idsP(4)]
  note hitR = update_patches_every_match [where now = 9 and s = busyState and i = "js ''1700000000000''" and ru = clockOutUpdates,
      THEN conjunct2,
      THEN conjunct2,
      THEN conjunct2,
      THEN conjunct2,
      THEN conjunct1, rule_format]
  note missR = update_patches_every_match [where now = 9 and s = busyState and i = "js ''5''" and ru = clockOutUpdates,
      THEN conjunct2,
      THEN conjunct2,
      THEN conjunct2,
      THEN conjunct2,
      THEN conjunct2,
      THEN conjunct1, rule_format, OF idsR(2)]
  note hitT = update_patches_every_match [where now = 9 and s = busyState and i = "js ''t1''" and tu = completedUpdates,
      THEN conjunct2,
      THEN conjunct2,
      THEN conjunct2,
      THEN conjunct2,
      THEN conjunct2,
      THEN conjunct2,
      THEN conjunct2,
      THEN conjunct1, rule_format]
  note missT = update_patches_every_match [where now = 9 and s = busyState and i = "js ''t2''" and tu = completedUpdates,
      THEN conjunct2,
      THEN conjunct2,
      THEN conjunct2,
      THEN conjunct2,
      THEN conjunct2,
      THEN conjunct2,
      THEN conjunct2,
      THEN conjunct2, rule_format, OF idsT(2)]
  have a: "P_name (persons (attendanceReducer 9 busyState (UPDATE_PERSON (js ''1'') renameOnly)) ! 0)
     = js ''Renamed''"
    by (subst hitP) (simp_all add: idsP renameOnly_def)
  have b: "P_name (persons (attendanceReducer 9 busyState (UPDATE_PERSON (js ''1'') renameOnly)) ! 3)
     = js ''Renamed''"
    by (subst hitP) (simp_all add: idsP renameOnly_def)
  have c: "P_email (persons (attendanceReducer 9 busyState (UPDATE_PERSON (js ''1'') renameOnly)) ! 0)
     = Some (js ''abhinav@example.com'')"
    by (subst hitP) (simp_all add: idsP renameOnly_def, simp add: ps initialState_def)
  have d: "persons (attendanceReducer 9 busyState (UPDATE_PERSON (js ''1'') renameOnly)) ! 1
     = persons busyState ! 1"
    by (subst hitP) (simp_all add: ps initialState_def js_def)
  have e: "attendanceRecords (attendanceReducer 9 busyState
       (UPDATE_ATTENDANCE_RECORD (js ''1700000000000'') clockOutUpdates)) ! 0
     = clockInRecord\<lparr> R_clockOutTime := Some (js ''17:00:00''),
         R_duration := Some (js ''08:00:00'') \<rparr>"
    by (subst hitR) (simp_all add: idsR clockOutUpdates_def, simp add: rs clockInRecord_def)
  have f: "trainingSessions (attendanceReducer 9 busyState
       (UPDATE_TRAINING_SESSION (js ''t1'') completedUpdates)) ! 0
     = runningSession\<lparr> T_imagesCaptured := 101, T_status := completed, T_endTime := Some 2000 \<rparr>"
    by (subst hitT) (simp_all add: idsT completedUpdates_def, simp add: ts runningSession_def)
  from a b c d e f missP missR missT show ?thesis by (simp only: simp_thms)
qed

section \<open>The duration string\<close>


lemma below_ten: "(k::nat) < 10 \<Longrightarrow> k \<in> {0, 1, 2, 3, 4, 5, 6, 7, 8, 9}"
  by auto

lemma isDigit_digitChar: "k < 10 \<Longrightarrow> isDigit (digitChar k)"
  by (drule below_ten) (auto simp: isDigit_def digitChar_def)

lemma digitValue_digitChar: "k < 10 \<Longrightarrow> digitValue (digitChar k) = int k"
  by (drule below_ten) (auto simp: digitValue_def digitChar_def)

lemma digitChar_not_colon: "k < 10 \<Longrightarrow> digitChar k \<noteq> 0x3A"
  by (drule below_ten) (auto simp: digitChar_def)

lemma Number_js_twoDigits:
  assumes "n < 100"
  shows "Number_js (twoDigits n) = Some (int n)"
proof -
  from assms have hi: "n div 10 < 10" and lo: "n mod 10 < 10" by simp_all
  have "int (n div 10) * 10 + int (n mod 10) = int n"
    by (simp add: zdiv_int zmod_int)
  with hi lo show ?thesis
    by (simp add: Number_js_def twoDigits_def isDigit_digitChar digitValue_digitChar)
qed

lemma split_js_twoDigits_end: "n < 100 \<Longrightarrow> split_js 0x3A (twoDigits n) = [twoDigits n]"
  by (simp add: twoDigits_def digitChar_not_colon)

lemma split_js_twoDigits_colon:
  "n < 100 \<Longrightarrow> split_js 0x3A (twoDigits n @ 0x3A # rest) = twoDigits n # split_js 0x3A rest"
  by (simp add: twoDigits_def digitChar_not_colon)

lemma split_js_clockString:
  "h < 100 \<Longrightarrow> m < 100 \<Longrightarrow> s < 100
     \<Longrightarrow> split_js 0x3A (clockString h m s) = [twoDigits h, twoDigits m, twoDigits s]"
  by (simp add: clockString_def split_js_twoDigits_colon split_js_twoDigits_end)

lemma threeNumbers_clockString:
  "h < 100 \<Longrightarrow> m < 100 \<Longrightarrow> s < 100
     \<Longrightarrow> threeNumbers (clockString h m s) = Some (int h, int m, int s)"
  by (simp add: threeNumbers_def split_js_clockString Number_js_twoDigits)

lemma padStart_toString_js:
  assumes "n < 100"
  shows "padStart 2 0x30 (toString_js (int n)) = twoDigits n"
proof (cases "n < 10")
  case True
  then have "digitsOf n = [digitChar n]" by (simp add: digitsOf.simps)
  moreover have "digitChar 0 = 0x30" by (simp add: digitChar_def)
  ultimately show ?thesis using True
    by (simp add: padStart_def toString_js_def twoDigits_def)
next
  case False
  with assms have "n div 10 < 10" by simp
  then have "digitsOf (n div 10) = [digitChar (n div 10)]" by (simp add: digitsOf.simps)
  with False have "digitsOf n = twoDigits n"
    by (subst digitsOf.simps) (simp add: twoDigits_def)
  then show ?thesis
    by (simp add: padStart_def toString_js_def twoDigits_def)
qed

lemma calculateDuration_numbers:
  assumes "threeNumbers clockIn = Some (int h1, int m1, int s1)"
    and "threeNumbers clockOut = Some (int h2, int m2, int s2)"
    and "secondsOf h1 m1 s1 \<le> secondsOf h2 m2 s2"
    and "secondsOf h2 m2 s2 - secondsOf h1 m1 s1 < 360000"
  shows "calculateDuration clockIn clockOut
           = Some (renderSeconds (secondsOf h2 m2 s2 - secondsOf h1 m1 s1))"
proof -
  define d where "d = secondsOf h2 m2 s2 - secondsOf h1 m1 s1"
  have dur: "(int h2 * 3600 + int m2 * 60 + int s2) - (int h1 * 3600 + int m1 * 60 + int s1) = int d"
    using assms(3) by (simp add: d_def secondsOf_def)
  have hours: "int d div 3600 = int (d div 3600)" by (simp add: zdiv_int)
  have minutes: "rem_js (int d) 3600 div 60 = int (d mod 3600 div 60)"
    by (simp add: rem_js_def zdiv_int zmod_int)
  have seconds: "rem_js (int d) 60 = int (d mod 60)"
    by (simp add: rem_js_def zmod_int)
  have hb: "d div 3600 < 100" using assms(4) by (simp add: d_def)
  have mb: "d mod 3600 div 60 < 100"
    by (rule less_trans [of _ 60]) simp_all
  have sb: "d mod 60 < 100"
    by (rule less_trans [of _ 60]) simp_all
  have "calculateDuration clockIn clockOut
          = Some (padStart 2 0x30 (toString_js (int (d div 3600))) @ [0x3A]
                  @ padStart 2 0x30 (toString_js (int (d mod 3600 div 60))) @ [0x3A]
                  @ padStart 2 0x30 (toString_js (int (d mod 60))))"
    unfolding calculateDuration_def assms(1) assms(2) Let_def
    by (simp only: option.case prod.case dur hours minutes seconds)
  also have "\<dots> = Some (renderSeconds d)"
    by (simp only: padStart_toString_js [OF hb] padStart_toString_js [OF mb]
        padStart_toString_js [OF sb] renderSeconds_def clockString_def)
  finally show ?thesis by (simp only: d_def)
qed

lemma secondsOf_bound:
  "h < 100 \<Longrightarrow> m < 60 \<Longrightarrow> s < 60 \<Longrightarrow> secondsOf h m s < 360000"
  by (simp add: secondsOf_def)

text \<open>
  C7. With clock-in \<open>09:00:00\<close> and clock-out \<open>10:30:15\<close> the duration computed is
  \<open>01:30:15\<close>. More generally, for two times written \<open>HH:MM:SS\<close> with two digits a
  field, minutes and seconds below 60 (hours of a day are below 24; any two-digit hour is
  allowed here), and the clock-out not earlier than the clock-in, the function returns the
  zero-padded \<open>HH:MM:SS\<close> rendering of the difference in seconds.
\<close>

theorem duration_of_well_formed_times:
  "calculateDuration (js ''09:00:00'') (js ''10:30:15'') = Some (js ''01:30:15'') \<and>
   (h1 < 100 \<and> m1 < 60 \<and> s1 < 60 \<and> h2 < 100 \<and> m2 < 60 \<and> s2 < 60 \<and>
    secondsOf h1 m1 s1 \<le> secondsOf h2 m2 s2 \<longrightarrow>
      calculateDuration (clockString h1 m1 s1) (clockString h2 m2 s2)
        = Some (renderSeconds (secondsOf h2 m2 s2 - secondsOf h1 m1 s1)))"
proof (intro conjI impI)
  have in9: "clockString 9 0 0 = js ''09:00:00''"
    by (simp add: clockString_def twoDigits_def digitChar_def js_def)
  have out10: "clockString 10 30 15 = js ''10:30:15''"
    by (simp add: clockString_def twoDigits_def digitChar_def js_def)
  have "calculateDuration (clockString 9 0 0) (clockString 10 30 15)
          = Some (renderSeconds (secondsOf 10 30 15 - secondsOf 9 0 0))"
    by (rule calculateDuration_numbers) (simp_all add: threeNumbers_clockString secondsOf_def)
  also have "renderSeconds (secondsOf 10 30 15 - secondsOf 9 0 0) = js ''01:30:15''"
    by (simp add: renderSeconds_def secondsOf_def clockString_def twoDigits_def digitChar_def js_def)
  finally show "calculateDuration (js ''09:00:00'') (js ''10:30:15'') = Some (js ''01:30:15'')"
    by (simp only: in9 out10)
next
  assume a: "h1 < 100 \<and> m1 < 60 \<and> s1 < 60 \<and> h2 < 100 \<and> m2 < 60 \<and> s2 < 60 \<and>
    secondsOf h1 m1 s1 \<le> secondsOf h2 m2 s2"
  then have "secondsOf h2 m2 s2 < 360000" by (simp add: secondsOf_bound)
  then have "secondsOf h2 m2 s2 - secondsOf h1 m1 s1 < 360000" by simp
  with a show "calculateDuration (clockString h1 m1 s1) (clockString h2 m2 s2)
        = Some (renderSeconds (secondsOf h2 m2 s2 - secondsOf h1 m1 s1))"
    by (intro calculateDuration_numbers threeNumbers_clockString) simp_all
qed

theorem duration_of_well_formed_times_witness:
  "secondsOf 23 59 58 \<le> secondsOf 23 59 59 \<and>
   calculateDuration (js ''23:59:58'') (js ''23:59:59'') = Some (js ''00:00:01'') \<and>
   secondsOf 8 5 0 \<le> secondsOf 17 0 30 \<and>
   calculateDuration (js ''08:05:00'') (js ''17:00:30'') = Some (js ''08:55:30'')"
proof -
  have e: "clockString 23 59 58 = js ''23:59:58''" "clockString 23 59 59 = js ''23:59:59''"
    "clockString 8 5 0 = js ''08:05:00''" "clockString 17 0 30 = js ''17:00:30''"
    by (simp_all add: clockString_def twoDigits_def digitChar_def js_def)
  have r: "renderSeconds (secondsOf 23 59 59 - secondsOf 23 59 58) = js ''00:00:01''"
    "renderSeconds (secondsOf 17 0 30 - secondsOf 8 5 0) = js ''08:55:30''"
    by (simp_all add: renderSeconds_def secondsOf_def clockString_def twoDigits_def digitChar_def js_def)
  have o: "secondsOf 23 59 58 \<le> secondsOf 23 59 59" "secondsOf 8 5 0 \<le> secondsOf 17 0 30"
    by (simp_all add: secondsOf_def)
  from duration_of_well_formed_times [of 23 59 58 23 59 59]
    duration_of_well_formed_times [of 8 5 0 17 0 30] o
  show ?thesis by (simp add: e r)
qed

section \<open>What the registration form accepts\<close>

lemma test_OneOrMore:
  "test (OneOrMore cls # r) s
     = (\<exists>a b. s = a @ b \<and> a \<noteq> [] \<and> list_all cls a \<and> test r b)"
proof (induction s)
  case Nil
  show ?case by simp
next
  case (Cons x xs)
  show ?case (is "?l = ?r")
  proof
    assume ?l
    then have px: "cls x" and rest: "test r xs \<or> test (OneOrMore cls # r) xs" by simp_all
    from rest show ?r
    proof
      assume "test r xs"
      with px have "x # xs = [x] @ xs \<and> [x] \<noteq> [] \<and> list_all cls [x] \<and> test r xs" by simp
      then show ?r by blast
    next
      assume "test (OneOrMore cls # r) xs"
      with Cons.IH obtain a b where ab: "xs = a @ b" "a \<noteq> []" "list_all cls a" "test r b"
        by blast
      with px have "x # xs = (x # a) @ b \<and> x # a \<noteq> [] \<and> list_all cls (x # a) \<and> test r b"
        by simp
      then show ?r by blast
    qed
  next
    assume ?r
    then obtain a b where ab: "x # xs = a @ b" "a \<noteq> []" "list_all cls a" "test r b" by blast
    then obtain a' where a: "a = x # a'" and xs: "xs = a' @ b"
      by (cases a) simp_all
    from ab(3) a have px: "cls x" and pa: "list_all cls a'" by simp_all
    show ?l
    proof (cases "a' = []")
      case True
      with xs ab(4) px show ?thesis by simp
    next
      case False
      with xs pa ab(4) have "test (OneOrMore cls # r) xs"
        using Cons.IH by blast
      with px show ?thesis by simp
    qed
  qed
qed

lemma test_Literal: "test (Literal c # r) s = (\<exists>b. s = c # b \<and> test r b)"
  by (cases s) auto

lemma test_class_only: "test [OneOrMore cls] s = (s \<noteq> [] \<and> list_all cls s)"
  by (auto simp: test_OneOrMore)

lemma test_emailPattern: "test emailPattern s = emailShape s"
  unfolding emailPattern_def emailShape_def
  by (simp only: test_OneOrMore test_Literal test.simps(1)) (auto, blast+)

lemma trim_empty: "(trim s = []) = list_all isWhiteSpace s"
proof
  assume "trim s = []"
  then have all: "\<forall>x \<in> set (dropWhile isWhiteSpace s). isWhiteSpace x"
    by (simp add: trim_def dropWhile_eq_Nil_conv)
  have "dropWhile isWhiteSpace s = []"
  proof (rule ccontr)
    assume ne: "dropWhile isWhiteSpace s \<noteq> []"
    then have "\<not> isWhiteSpace (hd (dropWhile isWhiteSpace s))" by (rule hd_dropWhile)
    moreover from ne have "hd (dropWhile isWhiteSpace s) \<in> set (dropWhile isWhiteSpace s)"
      by simp
    ultimately show False using all by blast
  qed
  then show "list_all isWhiteSpace s"
    by (simp add: dropWhile_eq_Nil_conv list_all_iff)
next
  assume "list_all isWhiteSpace s"
  then have "dropWhile isWhiteSpace s = []"
    by (simp add: dropWhile_eq_Nil_conv list_all_iff)
  then show "trim s = []" by (simp only: trim_def rev.simps dropWhile.simps)
qed

lemma digit_not_space: "isDigit c \<Longrightarrow> \<not> isWhiteSpace c"
  by (auto simp: isDigit_def isWhiteSpace_def word_le_nat_alt)

lemma digits_not_blank:
  assumes "s \<noteq> []" and "list_all isDigit s"
  shows "\<not> list_all isWhiteSpace s"
proof -
  from assms obtain c cs where "s = c # cs" "isDigit c" by (cases s) simp_all
  then show ?thesis by (simp add: digit_not_space)
qed

lemma accepted_iff:
  "accepted formData =
     ((F_id formData \<noteq> [] \<and> list_all isDigit (F_id formData)) \<and>
      (list_all (\<lambda>c. isLetter c \<or> isWhiteSpace c) (F_name formData) \<and>
         \<not> list_all isWhiteSpace (F_name formData)) \<and>
      (F_email formData = [] \<or> emailShape (F_email formData)))"
proof -
  have blank: "list_all isWhiteSpace s \<Longrightarrow> list_all (\<lambda>c. isLetter c \<or> isWhiteSpace c) s" for s
    by (induction s) simp_all
  have nil: "\<not> list_all isWhiteSpace s \<Longrightarrow> s \<noteq> []" for s
    by auto
  show ?thesis
    using digits_not_blank [of "F_id formData"] nil [of "F_name formData"]
    by (auto simp: accepted_def validateForm_def Let_def trim_empty digitsPattern_def
        lettersPattern_def test_class_only test_emailPattern)
qed


lemma errorOf_id:
  "errorOf formData ''id'' =
     (if trim (F_id formData) = [] then Some ''ID is required''
      else if \<not> test digitsPattern (F_id formData) then Some ''ID must be numeric'' else None)"
  by (simp add: errorOf_def validateForm_def Let_def)

lemma errorOf_name:
  "errorOf formData ''name'' =
     (if trim (F_name formData) = [] then Some ''Name is required''
      else if \<not> test lettersPattern (F_name formData) then Some ''Name must contain only letters''
      else None)"
  by (simp add: errorOf_def validateForm_def Let_def)

lemma errorOf_email:
  "errorOf formData ''email'' =
     (if F_email formData \<noteq> [] \<and> \<not> test emailPattern (F_email formData)
      then Some ''Invalid email format'' else None)"
  by (simp add: errorOf_def validateForm_def Let_def)

lemma accepted_no_errors:
  "accepted formData =
     (errorOf formData ''id'' = None \<and> errorOf formData ''name'' = None \<and>
      errorOf formData ''email'' = None)"
  by (simp add: errorOf_id errorOf_name errorOf_email) (simp add: accepted_def validateForm_def Let_def)

lemma sample_12a:
  "trim (js ''12a'') \<noteq> []" "\<not> test digitsPattern (js ''12a'')"
  by (simp_all add: trim_def js_def isWhiteSpace_def digitsPattern_def isDigit_def)

lemma sample_John_Doe:
  "trim (js ''John Doe'') \<noteq> []" "test lettersPattern (js ''John Doe'')"
  by (simp_all add: trim_def js_def isWhiteSpace_def lettersPattern_def isLetter_def)

lemma sample_John3:
  "trim (js ''John3'') \<noteq> []" "\<not> test lettersPattern (js ''John3'')"
  by (simp_all add: trim_def js_def isWhiteSpace_def lettersPattern_def isLetter_def)

lemma sample_not_an_email:
  "js ''not-an-email'' \<noteq> []" "\<not> test emailPattern (js ''not-an-email'')"
  by (simp_all add: js_def isWhiteSpace_def emailPattern_def notSpaceNorAt_def)

lemma sample_john_at_example:
  "test emailPattern (js ''john@example.com'')"
  by (simp add: js_def isWhiteSpace_def emailPattern_def notSpaceNorAt_def)

text \<open>
  C8, as the claim states it, fails on a blank name: the form with id \<open>1\<close>, a name of one
  space and no email meets the three stated conditions (the name is non-empty and holds
  only letters and white space) and is rejected, because the name is trimmed before the
  test for presence.
\<close>

theorem blank_name_rejected:
  "(F_id blankNameForm \<noteq> [] \<and> list_all isDigit (F_id blankNameForm)) \<and>
   (F_name blankNameForm \<noteq> [] \<and>
      list_all (\<lambda>c. isLetter c \<or> isWhiteSpace c) (F_name blankNameForm)) \<and>
   F_email blankNameForm = [] \<and>
   \<not> accepted blankNameForm \<and>
   errorOf blankNameForm ''name'' = Some ''Name is required''"
  by (simp add: accepted_no_errors errorOf_id errorOf_name errorOf_email)
     (simp add: blankNameForm_def js_def trim_def isWhiteSpace_def isDigit_def digitsPattern_def)

text \<open>
  C8, amended. Validation accepts a submission if and only if the identifier is non-empty
  and all digits, the name holds only letters and white space and is not blank (it has a
  character that is not white space), and the email is empty or has the basic shape
  \<open>local@domain.tld\<close>. Whatever the other fields hold: identifier \<open>12a\<close> is rejected, name
  \<open>John Doe\<close> raises no error, name \<open>John3\<close> is rejected, email \<open>not-an-email\<close> is
  rejected, and an empty email raises no error.
\<close>

theorem registration_form_validation:
  "accepted formData =
     ((F_id formData \<noteq> [] \<and> list_all isDigit (F_id formData)) \<and>
      (list_all (\<lambda>c. isLetter c \<or> isWhiteSpace c) (F_name formData) \<and>
         \<not> list_all isWhiteSpace (F_name formData)) \<and>
      (F_email formData = [] \<or> emailShape (F_email formData))) \<and>
   (F_id formData = js ''12a'' \<longrightarrow>
      \<not> accepted formData \<and> errorOf formData ''id'' = Some ''ID must be numeric'') \<and>
   (F_name formData = js ''John Doe'' \<longrightarrow> errorOf formData ''name'' = None) \<and>
   (F_name formData = js ''John3'' \<longrightarrow>
      \<not> accepted formData \<and> errorOf formData ''name'' = Some ''Name must contain only letters'') \<and>
   (F_email formData = js ''not-an-email'' \<longrightarrow>
      \<not> accepted formData \<and> errorOf formData ''email'' = Some ''Invalid email format'') \<and>
   (F_email formData = [] \<longrightarrow> errorOf formData ''email'' = None)"
proof (intro conjI impI)
  show "accepted formData =
     ((F_id formData \<noteq> [] \<and> list_all isDigit (F_id formData)) \<and>
      (list_all (\<lambda>c. isLetter c \<or> isWhiteSpace c) (F_name formData) \<and>
         \<not> list_all isWhiteSpace (F_name formData)) \<and>
      (F_email formData = [] \<or> emailShape (F_email formData)))"
    by (rule accepted_iff)
next
  assume "F_id formData = js ''12a''"
  then show "errorOf formData ''id'' = Some ''ID must be numeric''"
    by (simp add: errorOf_id sample_12a)
  then show "\<not> accepted formData" by (simp add: accepted_no_errors)
next
  assume "F_name formData = js ''John Doe''"
  then show "errorOf formData ''name'' = None"
    by (simp add: errorOf_name sample_John_Doe)
next
  assume "F_name formData = js ''John3''"
  then show "errorOf formData ''name'' = Some ''Name must contain only letters''"
    by (simp add: errorOf_name sample_John3)
  then show "\<not> accepted formData" by (simp add: accepted_no_errors)
next
  assume "F_email formData = js ''not-an-email''"
  then show "errorOf formData ''email'' = Some ''Invalid email format''"
    by (simp add: errorOf_email sample_not_an_email)
  then show "\<not> accepted formData" by (simp add: accepted_no_errors)
next
  assume "F_email formData = []"
  then show "errorOf formData ''email'' = None"
    by (simp add: errorOf_email)
qed

theorem registration_form_validation_witness:
  "accepted johnDoeForm \<and> fst (validateForm johnDoeForm) = [] \<and>
   F_name johnDoeForm = js ''John Doe'' \<and> errorOf johnDoeForm ''name'' = None \<and>
   emailShape (F_email johnDoeForm) \<and>
   \<not> accepted (johnDoeForm\<lparr> F_id := js ''12a'' \<rparr>) \<and>
   \<not> accepted (johnDoeForm\<lparr> F_name := js ''John3'' \<rparr>) \<and>
   \<not> accepted (johnDoeForm\<lparr> F_email := js ''not-an-email'' \<rparr>) \<and>
   accepted (johnDoeForm\<lparr> F_email := [] \<rparr>) \<and>
   errorOf (johnDoeForm\<lparr> F_email := [] \<rparr>) ''email'' = None"
proof -
  have ok: "accepted johnDoeForm" and none: "fst (validateForm johnDoeForm) = []"
    and ok2: "accepted (johnDoeForm\<lparr> F_email := [] \<rparr>)"
    by (simp_all add: accepted_def validateForm_def Let_def johnDoeForm_def sample_John_Doe
        sample_john_at_example)
       (simp_all add: trim_def js_def isWhiteSpace_def digitsPattern_def isDigit_def)
  have name: "F_name johnDoeForm = js ''John Doe''" by (simp add: johnDoeForm_def)
  have mail: "F_email johnDoeForm \<noteq> []" by (simp add: johnDoeForm_def js_def)
  note base = registration_form_validation [of johnDoeForm]
  note bad_id = registration_form_validation [of "johnDoeForm\<lparr> F_id := js ''12a'' \<rparr>"]
  note bad_name = registration_form_validation [of "johnDoeForm\<lparr> F_name := js ''John3'' \<rparr>"]
  note bad_mail = registration_form_validation [of "johnDoeForm\<lparr> F_email := js ''not-an-email'' \<rparr>"]
  note no_mail = registration_form_validation [of "johnDoeForm\<lparr> F_email := [] \<rparr>"]
  from base [THEN conjunct1] ok mail have "emailShape (F_email johnDoeForm)"
    by blast
  moreover from base [THEN conjunct2, THEN conjunct2, THEN conjunct1] name
  have "errorOf johnDoeForm ''name'' = None"
    by blast
  moreover from bad_id [THEN conjunct2, THEN conjunct1]
  have "\<not> accepted (johnDoeForm\<lparr> F_id := js ''12a'' \<rparr>)"
    by simp
  moreover from bad_name [THEN conjunct2, THEN conjunct2, THEN conjunct2, THEN conjunct1]
  have "\<not> accepted (johnDoeForm\<lparr> F_name := js ''John3'' \<rparr>)"
    by simp
  moreover from bad_mail [THEN conjunct2, THEN conjunct2, THEN conjunct2, THEN conjunct2,
      THEN conjunct1]
  have "\<not> accepted (johnDoeForm\<lparr> F_email := js ''not-an-email'' \<rparr>)"
    by simp
  moreover from no_mail [THEN conjunct2, THEN conjunct2, THEN conjunct2, THEN conjunct2,
      THEN conjunct2]
  have "errorOf (johnDoeForm\<lparr> F_email := [] \<rparr>) ''email'' = None"
    by simp
  ultimately show ?thesis using ok none ok2 name by simp
qed

section \<open>Raising, unhandled actions and unvalidated payloads\<close>

lemma map_js_defined:
  "(\<And>x. x \<in> set xs \<Longrightarrow> f x = Inr (g x)) \<Longrightarrow> map_js f xs = Inr (map g xs)"
  by (induction xs) simp_all

lemma filter_js_defined:
  "(\<And>x. x \<in> set xs \<Longrightarrow> f x = Inr (keep x)) \<Longrightarrow> filter_js f xs = Inr (filter keep xs)"
  by (induction xs) simp_all

lemma map_js_absent_payload:
  "xs \<noteq> [] \<Longrightarrow> map_js (patch_js ident merge None) xs = Inl TypeError"
  by (cases xs) (simp_all add: patch_js_def split: option.splits)

lemma map_js_present_payload:
  assumes "None \<notin> set xs"
  shows "map_js (patch_js ident merge (Some (wanted, updates))) xs
           = Inr (map (\<lambda>x. Some (if ident (the x) = wanted then merge (the x) updates else the x)) xs)"
proof (rule map_js_defined)
  fix x assume "x \<in> set xs"
  with assms obtain y where "x = Some y" by (cases x) auto
  then show "patch_js ident merge (Some (wanted, updates)) x
      = Inr (Some (if ident (the x) = wanted then merge (the x) updates else the x))"
    by (simp add: patch_js_def)
qed

lemma filter_js_entries:
  assumes "None \<notin> set xs"
  shows "filter_js (keep_js payload) xs = Inr (filter (\<lambda>x. RP_id (the x) \<noteq> payload) xs)"
proof (rule filter_js_defined)
  fix x assume "x \<in> set xs"
  with assms obtain y where "x = Some y" by (cases x) auto
  then show "keep_js payload x = Inr (RP_id (the x) \<noteq> payload)"
    by (simp add: keep_js_def)
qed

lemma spread_present: "spread (Some a) (map_option Some u) = Some (spread a u)"
  by (cases u) (simp_all add: spread_def)

lemma raw_spread_Person:
  "spread_RawPerson (raw_Person p) (Some (raw_PersonUpdates u)) = raw_Person (spread_Person p u)"
  by (simp add: spread_RawPerson_def raw_Person_def raw_PersonUpdates_def spread_Person_def
      spread_present)

lemma raw_spread_AttendanceRecord:
  "spread_RawAttendanceRecord (raw_AttendanceRecord r) (Some (raw_AttendanceRecordUpdates u))
     = raw_AttendanceRecord (spread_AttendanceRecord r u)"
  by (simp add: spread_RawAttendanceRecord_def raw_AttendanceRecord_def
      raw_AttendanceRecordUpdates_def spread_AttendanceRecord_def spread_present)

lemma raw_spread_TrainingSession:
  "spread_RawTrainingSession (raw_TrainingSession t) (Some (raw_TrainingSessionUpdates u))
     = raw_TrainingSession (spread_TrainingSession t u)"
  by (simp add: spread_RawTrainingSession_def raw_TrainingSession_def
      raw_TrainingSessionUpdates_def spread_TrainingSession_def spread_present)

lemma raw_update_person:
  "map_js (patch_js RP_id spread_RawPerson (Some (Some i, Some (raw_PersonUpdates u))))
       (map (\<lambda>p. Some (raw_Person p)) ps)
     = Inr (map (\<lambda>p. Some (raw_Person p))
         (map (\<lambda>person. if P_id person = i then spread_Person person u else person) ps))"
proof -
  have "patch_js RP_id spread_RawPerson (Some (Some i, Some (raw_PersonUpdates u))) (Some (raw_Person p))
      = Inr (Some (raw_Person (if P_id p = i then spread_Person p u else p)))" for p
    by (simp add: patch_js_def raw_spread_Person) (simp add: raw_Person_def)
  then show ?thesis by (induction ps) simp_all
qed

lemma raw_update_record:
  "map_js (patch_js RR_id spread_RawAttendanceRecord
        (Some (Some i, Some (raw_AttendanceRecordUpdates u))))
       (map (\<lambda>r. Some (raw_AttendanceRecord r)) rs)
     = Inr (map (\<lambda>r. Some (raw_AttendanceRecord r))
         (map (\<lambda>record. if R_id record = i then spread_AttendanceRecord record u else record) rs))"
proof -
  have "patch_js RR_id spread_RawAttendanceRecord
          (Some (Some i, Some (raw_AttendanceRecordUpdates u))) (Some (raw_AttendanceRecord r))
      = Inr (Some (raw_AttendanceRecord (if R_id r = i then spread_AttendanceRecord r u else r)))"
    for r
    by (simp add: patch_js_def raw_spread_AttendanceRecord) (simp add: raw_AttendanceRecord_def)
  then show ?thesis by (induction rs) simp_all
qed

lemma raw_update_session:
  "map_js (patch_js RT_id spread_RawTrainingSession
        (Some (Some i, Some (raw_TrainingSessionUpdates u))))
       (map (\<lambda>t. Some (raw_TrainingSession t)) ts)
     = Inr (map (\<lambda>t. Some (raw_TrainingSession t))
         (map (\<lambda>session. if T_id session = i then spread_TrainingSession session u else session) ts))"
proof -
  have "patch_js RT_id spread_RawTrainingSession
          (Some (Some i, Some (raw_TrainingSessionUpdates u))) (Some (raw_TrainingSession t))
      = Inr (Some (raw_TrainingSession (if T_id t = i then spread_TrainingSession t u else t)))"
    for t
    by (simp add: patch_js_def raw_spread_TrainingSession) (simp add: raw_TrainingSession_def)
  then show ?thesis by (induction ts) simp_all
qed

lemma raw_delete_person:
  "filter_js (keep_js (Some i)) (map (\<lambda>p. Some (raw_Person p)) ps)
     = Inr (map (\<lambda>p. Some (raw_Person p)) (filter (\<lambda>person. P_id person \<noteq> i) ps))"
  by (induction ps) (simp_all add: keep_js_def raw_Person_def)

lemma raw_reducer_on_declared_types:
  "attendanceReducer_raw now (raw_State s) (raw_Action a)
     = Inr (raw_State (attendanceReducer now s a))"
proof (cases a)
  case (ADD_PERSON p)
  then show ?thesis by (simp add: raw_State_def)
next
  case (UPDATE_PERSON i u)
  then show ?thesis by (simp add: raw_State_def raw_update_person)
next
  case (DELETE_PERSON i)
  then show ?thesis by (simp add: raw_State_def raw_delete_person)
next
  case (ADD_ATTENDANCE_RECORD r)
  then show ?thesis by (simp add: raw_State_def Let_def raw_AttendanceRecord_def)
next
  case (UPDATE_ATTENDANCE_RECORD i u)
  then show ?thesis by (simp add: raw_State_def raw_update_record)
next
  case (START_TRAINING_SESSION t)
  then show ?thesis by (simp add: raw_State_def)
next
  case (UPDATE_TRAINING_SESSION i u)
  then show ?thesis by (simp add: raw_State_def raw_update_session)
next
  case (START_ATTENDANCE_SESSION d)
  then show ?thesis by (simp add: raw_State_def)
next
  case END_ATTENDANCE_SESSION
  then show ?thesis by (simp add: raw_State_def)
next
  case UPDATE_STATISTICS
  then show ?thesis by simp
qed

lemma raw_reducer_with_payload:
  assumes "entriesDefined rs" and "payloadPresent ra"
  shows "\<exists>rs'. attendanceReducer_raw now rs ra = Inr rs' \<and> entriesDefined rs'"
proof (cases ra)
  case (RAW_ADD_PERSON payload)
  with assms show ?thesis by (auto simp: entriesDefined_def)
next
  case (RAW_UPDATE_PERSON payload)
  with assms obtain w u where "payload = Some (w, u)" by (cases payload) auto
  with assms(1) RAW_UPDATE_PERSON show ?thesis
    by (auto simp: entriesDefined_def map_js_present_payload)
next
  case (RAW_DELETE_PERSON payload)
  with assms(1) show ?thesis
    by (auto simp: entriesDefined_def filter_js_entries)
next
  case (RAW_ADD_ATTENDANCE_RECORD payload)
  with assms show ?thesis by (auto simp: entriesDefined_def Let_def)
next
  case (RAW_UPDATE_ATTENDANCE_RECORD payload)
  with assms obtain w u where "payload = Some (w, u)" by (cases payload) auto
  with assms(1) RAW_UPDATE_ATTENDANCE_RECORD show ?thesis
    by (auto simp: entriesDefined_def map_js_present_payload)
next
  case (RAW_START_TRAINING_SESSION payload)
  with assms show ?thesis by (auto simp: entriesDefined_def)
next
  case (RAW_UPDATE_TRAINING_SESSION payload)
  with assms obtain w u where "payload = Some (w, u)" by (cases payload) auto
  with assms(1) RAW_UPDATE_TRAINING_SESSION show ?thesis
    by (auto simp: entriesDefined_def map_js_present_payload)
next
  case (RAW_START_ATTENDANCE_SESSION payload)
  with assms show ?thesis by (auto simp: entriesDefined_def)
next
  case RAW_END_ATTENDANCE_SESSION
  with assms(1) show ?thesis by (simp add: entriesDefined_def)
next
  case (RAW_OTHER t)
  with assms(1) show ?thesis by simp
qed

lemma entriesDefined_raw_State: "entriesDefined (raw_State s)"
  by (auto simp: entriesDefined_def raw_State_def)


text \<open>
  C6, as the claim states it, fails at run time: an action \<open>START_ATTENDANCE_SESSION\<close>
  dispatched without payload makes the reducer read \<open>lectureDuration\<close> of \<open>undefined\<close>,
  and an \<open>UPDATE_PERSON\<close> without payload makes it read \<open>id\<close> of \<open>undefined\<close> at the
  first person of the seeded roster; both raise \<open>TypeError\<close> where the claim has the
  input accepted.
\<close>

theorem absent_payload_raises:
  "attendanceReducer_raw 0 (raw_State initialState) (RAW_START_ATTENDANCE_SESSION None)
     = Inl TypeError \<and>
   attendanceReducer_raw 0 (raw_State initialState) (RAW_UPDATE_PERSON None) = Inl TypeError"
  by (simp add: raw_State_def initialState_def patch_js_def)

text \<open>
  C6, amended. The reducer returns the input state unchanged for every action whose type is
  not one of the nine handled cases, among them the declared \<open>UPDATE_STATISTICS\<close>. On
  every state and action of the declared types it raises nothing and returns the state of
  the typed model. More widely, on a state whose collections hold no \<open>undefined\<close> it
  raises nothing for any action that carries its payload object, whatever fields of that
  object are missing, and the add cases store the payload as given. An action without
  payload is still accepted by \<open>ADD_PERSON\<close> and \<open>START_TRAINING_SESSION\<close>, which
  append \<open>undefined\<close>, and on such a state by \<open>DELETE_PERSON\<close>; it raises
  \<open>TypeError\<close> in \<open>ADD_ATTENDANCE_RECORD\<close> and \<open>START_ATTENDANCE_SESSION\<close>, and in
  each of the three updates when the collection is not empty.
\<close>

theorem reducer_raises_only_without_payload:
  "attendanceReducer_raw now rs (RAW_OTHER t) = Inr rs \<and>
   attendanceReducer now s UPDATE_STATISTICS = s \<and>
   attendanceReducer_raw now (raw_State s) (raw_Action a)
     = Inr (raw_State (attendanceReducer now s a)) \<and>
   (entriesDefined rs \<and> payloadPresent ra \<longrightarrow>
      (\<exists>rs'. attendanceReducer_raw now rs ra = Inr rs' \<and> entriesDefined rs')) \<and>
   (\<exists>rs'. attendanceReducer_raw now rs (RAW_ADD_PERSON person) = Inr rs' \<and>
      raw_persons rs' = raw_persons rs @ [person]) \<and>
   (\<exists>rs'. attendanceReducer_raw now rs (RAW_ADD_ATTENDANCE_RECORD (Some record)) = Inr rs' \<and>
      raw_attendanceRecords rs' = raw_attendanceRecords rs @ [Some record]) \<and>
   (\<exists>rs'. attendanceReducer_raw now rs (RAW_START_TRAINING_SESSION session) = Inr rs' \<and>
      raw_trainingSessions rs' = raw_trainingSessions rs @ [session]) \<and>
   attendanceReducer_raw now rs (RAW_ADD_ATTENDANCE_RECORD None) = Inl TypeError \<and>
   attendanceReducer_raw now rs (RAW_START_ATTENDANCE_SESSION None) = Inl TypeError \<and>
   (raw_persons rs \<noteq> [] \<longrightarrow>
      attendanceReducer_raw now rs (RAW_UPDATE_PERSON None) = Inl TypeError) \<and>
   (raw_attendanceRecords rs \<noteq> [] \<longrightarrow>
      attendanceReducer_raw now rs (RAW_UPDATE_ATTENDANCE_RECORD None) = Inl TypeError) \<and>
   (raw_trainingSessions rs \<noteq> [] \<longrightarrow>
      attendanceReducer_raw now rs (RAW_UPDATE_TRAINING_SESSION None) = Inl TypeError)"
proof (intro conjI impI)
  show "attendanceReducer_raw now (raw_State s) (raw_Action a)
     = Inr (raw_State (attendanceReducer now s a))"
    by (rule raw_reducer_on_declared_types)
next
  assume "entriesDefined rs \<and> payloadPresent ra"
  then show "\<exists>rs'. attendanceReducer_raw now rs ra = Inr rs' \<and> entriesDefined rs'"
    by (simp add: raw_reducer_with_payload)
qed (simp_all add: Let_def map_js_absent_payload)

theorem reducer_raises_only_without_payload_witness:
  "attendanceReducer_raw 0 (raw_State initialState) (RAW_OTHER (js ''UPDATE_STATISTICS''))
     = Inr (raw_State initialState) \<and>
   attendanceReducer_raw 0 (raw_State initialState) (raw_Action (ADD_PERSON blankPerson))
     = Inr (raw_State (attendanceReducer 0 initialState (ADD_PERSON blankPerson))) \<and>
   entriesDefined (raw_State initialState) \<and>
   payloadPresent (RAW_UPDATE_PERSON (Some (None, None))) \<and>
   (\<exists>rs'. attendanceReducer_raw 0 (raw_State initialState) (RAW_UPDATE_PERSON (Some (None, None)))
      = Inr rs' \<and> entriesDefined rs') \<and>
   (\<exists>rs'. attendanceReducer_raw 0 (raw_State initialState) (RAW_ADD_PERSON (Some emptyObject))
      = Inr rs' \<and> raw_persons rs' = raw_persons (raw_State initialState) @ [Some emptyObject]) \<and>
   raw_attendanceRecords (raw_State initialState) = [] \<and>
   raw_persons (raw_State initialState) \<noteq> [] \<and>
   attendanceReducer_raw 0 (raw_State initialState) (RAW_UPDATE_PERSON None) = Inl TypeError"
proof -
  have wf: "entriesDefined (raw_State initialState)"
    by (rule entriesDefined_raw_State)
  have present: "payloadPresent (RAW_UPDATE_PERSON (Some (None, None)))"
    by simp
  have roster: "raw_persons (raw_State initialState) \<noteq> []"
    and no_records: "raw_attendanceRecords (raw_State initialState) = []"
    by (simp_all add: raw_State_def initialState_def)
  note other = reducer_raises_only_without_payload
    [where now = 0 and rs = "raw_State initialState" and t = "js ''UPDATE_STATISTICS''",
     THEN conjunct1]
  note typed = reducer_raises_only_without_payload
    [where now = 0 and s = initialState and a = "ADD_PERSON blankPerson",
     THEN conjunct2, THEN conjunct2, THEN conjunct1]
  note loose = reducer_raises_only_without_payload
    [where now = 0 and rs = "raw_State initialState" and ra = "RAW_UPDATE_PERSON (Some (None, None))",
     THEN conjunct2, THEN conjunct2, THEN conjunct2, THEN conjunct1, rule_format,
     OF conjI [OF wf present]]
  note added = reducer_raises_only_without_payload
    [where now = 0 and rs = "raw_State initialState" and person = "Some emptyObject",
     THEN conjunct2, THEN conjunct2, THEN conjunct2, THEN conjunct2, THEN conjunct1]
  note raised = reducer_raises_only_without_payload
    [where now = 0 and rs = "raw_State initialState",
     THEN conjunct2, THEN conjunct2, THEN conjunct2, THEN conjunct2, THEN conjunct2,
     THEN conjunct2, THEN conjunct2, THEN conjunct2, THEN conjunct2, THEN conjunct1,
     rule_format, OF roster]
  from other typed wf present loose added no_records roster raised
  show ?thesis by (intro conjI)
qed

end
